theory Spec2Isabelle
  imports Complex_Main "HOL-Library.Multiset"
begin

text \<open>
  A model of the test-relevance analysis of the Dynamic Test Identifier and Runner: the
  class \<^verbatim>\<open>TestAnalysisService\<close> of the background services and the class
  \<^verbatim>\<open>TestAnalyzer\<close> of the background service worker. Asynchronous methods are
  modelled by the values they resolve to; a thrown exception is a value of type
  \<open>js_error\<close>; logging is left out.
\<close>

section \<open>JavaScript strings and arrays\<close>

text \<open>
  Paths are modelled as ASCII strings (\<open>char list\<close>). The functions below are the
  string and array methods of JavaScript that the analysis code calls.
\<close>

text \<open>\<^verbatim>\<open>s.startsWith(p)\<close>\<close>

fun js_startsWith :: "string \<Rightarrow> string \<Rightarrow> bool" where
  "js_startsWith s [] = True"
| "js_startsWith [] (p # ps) = False"
| "js_startsWith (c # cs) (p # ps) = (c = p \<and> js_startsWith cs ps)"

text \<open>\<^verbatim>\<open>s.endsWith(p)\<close>\<close>

definition js_endsWith :: "string \<Rightarrow> string \<Rightarrow> bool" where
  "js_endsWith s p = js_startsWith (rev s) (rev p)"

text \<open>\<^verbatim>\<open>s.includes(p)\<close>: \<open>p\<close> occurs in \<open>s\<close> as a contiguous substring.\<close>

fun js_includes :: "string \<Rightarrow> string \<Rightarrow> bool" where
  "js_includes [] p = (p = [])"
| "js_includes (c # cs) p = (js_startsWith (c # cs) p \<or> js_includes cs p)"

text \<open>\<^verbatim>\<open>s.split(c)\<close> for a one-character separator; the result is never empty.\<close>

fun js_split :: "char \<Rightarrow> string \<Rightarrow> string list" where
  "js_split sep [] = [] # []"
| "js_split sep (c # cs) =
     (if c = sep then [] # js_split sep cs
      else (case js_split sep cs of [] \<Rightarrow> [c] # [] | w # ws \<Rightarrow> (c # w) # ws))"

text \<open>\<^verbatim>\<open>xs.join(sep)\<close>\<close>

fun js_join :: "string \<Rightarrow> string list \<Rightarrow> string" where
  "js_join sep [] = []"
| "js_join sep [x] = x"
| "js_join sep (x # y # ys) = x @ sep @ js_join sep (y # ys)"

text \<open>\<^verbatim>\<open>s.toLowerCase()\<close> on ASCII.\<close>

definition lower_char :: "char \<Rightarrow> char" where
  "lower_char c =
     (case map_of (zip ''ABCDEFGHIJKLMNOPQRSTUVWXYZ'' ''abcdefghijklmnopqrstuvwxyz'') c of
        None \<Rightarrow> c | Some d \<Rightarrow> d)"

definition js_toLowerCase :: "string \<Rightarrow> string" where
  "js_toLowerCase s = map lower_char s"

text \<open>\<^verbatim>\<open>xs.indexOf(x)\<close>, with \<open>None\<close> for \<open>-1\<close>.\<close>

fun js_indexOf :: "'a list \<Rightarrow> 'a \<Rightarrow> nat option" where
  "js_indexOf [] x = None"
| "js_indexOf (y # ys) x = (if y = x then Some 0 else map_option Suc (js_indexOf ys x))"

text \<open>
  \<^verbatim>\<open>s.replace(/c/g, rep)\<close> for a single character \<open>c\<close>, and
  \<^verbatim>\<open>s.replace(/ab/g, rep)\<close> for a two-character literal: matches are found from left
  to right and do not overlap.
\<close>

definition replace1 :: "char \<Rightarrow> string \<Rightarrow> string \<Rightarrow> string" where
  "replace1 c rep s = concat (map (\<lambda>x. if x = c then rep else [x]) s)"

fun replace2 :: "char \<Rightarrow> char \<Rightarrow> string \<Rightarrow> string \<Rightarrow> string" where
  "replace2 a b rep (x # y # s) =
     (if x = a \<and> y = b then rep @ replace2 a b rep s else x # replace2 a b rep (y # s))"
| "replace2 a b rep s = s"

text \<open>
  \<^verbatim>\<open>s.replace(/\.[^/.]+$/, '')\<close>: removes a final extension, that is a dot followed
  by one or more characters other than dot and slash, up to the end of the string. Such a
  match can only start at the dot in front of the longest dot- and slash-free suffix.
\<close>

definition removeExtension :: "string \<Rightarrow> string" where
  "removeExtension s =
     (let ok = (\<lambda>c. c \<noteq> CHR ''.'' \<and> c \<noteq> CHR ''/'') in
      case dropWhile ok (rev s) of
        [] \<Rightarrow> s
      | d # rest \<Rightarrow> if d = CHR ''.'' \<and> takeWhile ok (rev s) \<noteq> [] then rev rest else s)"

text \<open>
  The exceptions of the model: \<^verbatim>\<open>new RegExp\<close> on a source string that is not a
  regular expression throws a SyntaxError; calling a string method on \<^verbatim>\<open>undefined\<close>
  throws a TypeError.
\<close>

datatype js_error = SyntaxError | TypeError

text \<open>\<^verbatim>\<open>a || b\<close> on optional strings: \<^verbatim>\<open>undefined\<close> and \<^verbatim>\<open>''\<close> are falsy.\<close>

definition js_or :: "string option \<Rightarrow> string option \<Rightarrow> string option" where
  "js_or a b = (case a of None \<Rightarrow> b | Some s \<Rightarrow> if s = [] then b else Some s)"

text \<open>\<^verbatim>\<open>Math.round\<close>: the nearest integer, halves rounded up.\<close>

definition js_round :: "real \<Rightarrow> int" where
  "js_round x = \<lfloor>x + 1 / 2\<rfloor>"

section \<open>Regular expressions\<close>

text \<open>
  The regular expressions that the glob compilers build consist of literal characters,
  escaped characters (\<^verbatim>\<open>\.\<close>), the wildcard \<^verbatim>\<open>.\<close>, the class \<^verbatim>\<open>[^/]\<close>, the
  postfix \<^verbatim>\<open>*\<close>, and the anchors \<^verbatim>\<open>^\<close> (first) and \<^verbatim>\<open>$\<close> (last). \<open>RegExp\<close>
  parses this fragment of the syntax; any other source string is outside the model and
  is reported as a SyntaxError.
\<close>

datatype atom = Lit char | AnyChar | NotSlash

datatype token = TAtom atom | TStar | TEnd

datatype item = One atom | Star atom

record regex =
  anchoredStart :: bool
  anchoredEnd :: bool
  items :: "item list"

definition special :: "char \<Rightarrow> bool" where
  "special c = (c = CHR 0x5C \<or> c \<in> set ''^$.|?*+()[]{}'')"

fun tokens :: "string \<Rightarrow> token list option" where
  "tokens [] = Some []"
| "tokens (c # s) =
     (if c = CHR 0x5C then
        (case s of
           [] \<Rightarrow> None
         | d # s' \<Rightarrow> if special d \<or> d = CHR ''/'' then map_option (Cons (TAtom (Lit d))) (tokens s')
                     else None)
      else if c = CHR ''.'' then map_option (Cons (TAtom AnyChar)) (tokens s)
      else if c = CHR ''*'' then map_option (Cons TStar) (tokens s)
      else if c = CHR ''$'' then map_option (Cons TEnd) (tokens s)
      else if c = CHR ''['' then
        (if js_startsWith s ''^/]'' then map_option (Cons (TAtom NotSlash)) (tokens (drop 3 s))
         else None)
      else if special c then None
      else map_option (Cons (TAtom (Lit c))) (tokens s))"

fun items_of :: "token list \<Rightarrow> item list option" where
  "items_of [] = Some []"
| "items_of (TStar # ts) = None"
| "items_of (TEnd # ts) = None"
| "items_of (TAtom a # TStar # ts) = map_option (Cons (Star a)) (items_of ts)"
| "items_of (TAtom a # ts) = map_option (Cons (One a)) (items_of ts)"

text \<open>\<^verbatim>\<open>new RegExp(src)\<close>\<close>

definition RegExp :: "string \<Rightarrow> js_error + regex" where
  "RegExp src =
     (let a = js_startsWith src ''^'' in
      case tokens (if a then tl src else src) of
        None \<Rightarrow> Inl SyntaxError
      | Some ts \<Rightarrow>
          (let e = (ts \<noteq> [] \<and> last ts = TEnd) in
           case items_of (if e then butlast ts else ts) of
             None \<Rightarrow> Inl SyntaxError
           | Some its \<Rightarrow> Inr \<lparr>anchoredStart = a, anchoredEnd = e, items = its\<rparr>))"

text \<open>The wildcard \<^verbatim>\<open>.\<close> matches every character but a line terminator.\<close>

fun atom_matches :: "atom \<Rightarrow> char \<Rightarrow> bool" where
  "atom_matches (Lit d) c = (c = d)"
| "atom_matches AnyChar c = (c \<noteq> CHR 0x0A \<and> c \<noteq> CHR 0x0D)"
| "atom_matches NotSlash c = (c \<noteq> CHR ''/'')"

text \<open>
  \<open>match_here e its s\<close>: the items match a prefix of \<open>s\<close> (all of \<open>s\<close> when the end is
  anchored), by backtracking over the starred items.
\<close>

fun match_here :: "bool \<Rightarrow> item list \<Rightarrow> string \<Rightarrow> bool" where
  "match_here e [] s = (\<not> e \<or> s = [])"
| "match_here e (One a # its) [] = False"
| "match_here e (One a # its) (c # s) = (atom_matches a c \<and> match_here e its s)"
| "match_here e (Star a # its) [] = match_here e its []"
| "match_here e (Star a # its) (c # s) =
     (match_here e its (c # s) \<or> (atom_matches a c \<and> match_here e (Star a # its) s))"

fun match_anywhere :: "bool \<Rightarrow> item list \<Rightarrow> string \<Rightarrow> bool" where
  "match_anywhere e its [] = match_here e its []"
| "match_anywhere e its (c # s) = (match_here e its (c # s) \<or> match_anywhere e its s)"

text \<open>\<^verbatim>\<open>regex.test(s)\<close>\<close>

definition regex_test :: "regex \<Rightarrow> string \<Rightarrow> bool" where
  "regex_test r s =
     (if anchoredStart r then match_here (anchoredEnd r) (items r) s
      else match_anywhere (anchoredEnd r) (items r) s)"

section \<open>Glob compilers\<close>

text \<open>
  \<^verbatim>\<open>TestAnalysisService._globToRegex\<close>: three global replacements, applied in this
  order to the whole string, and no anchors.
\<close>

definition svc_globToRegex_source :: "string \<Rightarrow> string" where
  "svc_globToRegex_source pattern =
     replace1 CHR ''.'' [CHR 0x5C, CHR ''.'']
       (replace1 CHR ''*'' ''[^/]*''
         (replace2 CHR ''*'' CHR ''*'' ''.*'' pattern))"

definition svc_globToRegex :: "string \<Rightarrow> js_error + regex" where
  "svc_globToRegex pattern = RegExp (svc_globToRegex_source pattern)"

text \<open>
  \<^verbatim>\<open>TestAnalyzer.globToRegex\<close>, the second definition in the class body, which is the
  one in force: the same replacements with \<^verbatim>\<open>?\<close> turned into \<^verbatim>\<open>.\<close> before dots
  are escaped, and both anchors.
\<close>

definition globToRegex_source :: "string \<Rightarrow> string" where
  "globToRegex_source pattern =
     replace1 CHR ''.'' [CHR 0x5C, CHR ''.'']
       (replace1 CHR ''?'' ''.''
         (replace1 CHR ''*'' ''[^/]*''
           (replace2 CHR ''*'' CHR ''*'' ''.*'' pattern)))"

definition globToRegex :: "string \<Rightarrow> js_error + regex" where
  "globToRegex pattern = RegExp (''^'' @ globToRegex_source pattern @ ''$'')"

text \<open>
  \<^verbatim>\<open>TestAnalyzer.globToRegex\<close>, the first definition in the class body (overridden by
  the second): regex specials are escaped first, \<^verbatim>\<open>\*\<close> is protected by the
  character U+0001, then \<^verbatim>\<open>**\<close>, \<^verbatim>\<open>*\<close> and \<^verbatim>\<open>?\<close> are replaced.
\<close>

definition escapeSpecials :: "string \<Rightarrow> string" where
  "escapeSpecials s =
     concat (map (\<lambda>c. if c = CHR 0x5C \<or> c \<in> set ''.+^${}()|[]'' then [CHR 0x5C, c] else [c]) s)"

definition globToRegex_first_source :: "string \<Rightarrow> string" where
  "globToRegex_first_source glob =
     replace1 CHR 0x01 [CHR 0x5C, CHR ''*'']
       (replace1 CHR ''?'' ''.''
         (replace1 CHR ''*'' ''[^/]*''
           (replace2 CHR ''*'' CHR ''*'' ''.*''
             (replace2 CHR 0x5C CHR ''*'' [CHR 0x01]
               (escapeSpecials glob)))))"

definition globToRegex_first :: "string \<Rightarrow> js_error + regex" where
  "globToRegex_first glob = RegExp (''^'' @ globToRegex_first_source glob @ ''$'')"

section \<open>Pattern registry\<close>

text \<open>
  One entry of \<^verbatim>\<open>TEST_PATTERNS\<close>. The registry is an object keyed by language; its
  iteration order is the order in which the keys were written, so it is an association
  list here.
\<close>

record language_config =
  extensions :: "string list"
  patterns :: "string list"
  frameworks :: "string list"

type_synonym registry = "(string \<times> language_config) list"

definition TEST_PATTERNS :: registry where
  "TEST_PATTERNS =
    [(''javascript'', \<lparr>extensions = [''js'', ''jsx'', ''mjs''],
        patterns = [''**/*.test.js'', ''**/*.spec.js'', ''**/test/**/*.js'',
                    ''**/tests/**/*.js'', ''**/__tests__/**/*.js''],
        frameworks = [''jest'', ''mocha'', ''jasmine'', ''vitest'']\<rparr>),
     (''typescript'', \<lparr>extensions = [''ts'', ''tsx''],
        patterns = [''**/*.test.ts'', ''**/*.spec.ts'', ''**/test/**/*.ts'',
                    ''**/tests/**/*.ts'', ''**/__tests__/**/*.ts''],
        frameworks = [''jest'', ''mocha'', ''jasmine'', ''vitest'']\<rparr>),
     (''python'', \<lparr>extensions = [''py''],
        patterns = [''**/test_*.py'', ''**/*_test.py'', ''**/tests/**/*.py'',
                    ''**/test/**/*.py''],
        frameworks = [''pytest'', ''unittest'', ''nose2'']\<rparr>),
     (''java'', \<lparr>extensions = [''java''],
        patterns = [''**/src/test/**/*.java'', ''**/*Test.java'', ''**/*Tests.java'',
                    ''**/test/**/*.java''],
        frameworks = [''junit'', ''testng'', ''spock'']\<rparr>),
     (''csharp'', \<lparr>extensions = [''cs''],
        patterns = [''**/*.Test.cs'', ''**/*.Tests.cs'', ''**/test/**/*.cs'',
                    ''**/tests/**/*.cs''],
        frameworks = [''nunit'', ''mstest'', ''xunit'']\<rparr>),
     (''go'', \<lparr>extensions = [''go''],
        patterns = [''**/*_test.go''],
        frameworks = [''testing'', ''testify'', ''ginkgo'']\<rparr>),
     (''php'', \<lparr>extensions = [''php''],
        patterns = [''**/tests/**/*.php'', ''**/*Test.php'', ''**/test/**/*.php''],
        frameworks = [''phpunit'', ''pest'', ''codeception'']\<rparr>),
     (''ruby'', \<lparr>extensions = [''rb''],
        patterns = [''**/spec/**/*.rb'', ''**/*_spec.rb'', ''**/test/**/*.rb'',
                    ''**/*_test.rb''],
        frameworks = [''rspec'', ''minitest'', ''test-unit'']\<rparr>),
     (''rust'', \<lparr>extensions = [''rs''],
        patterns = [''**/tests/**/*.rs'', ''**/*_test.rs''],
        frameworks = [''cargo test'']\<rparr>),
     (''kotlin'', \<lparr>extensions = [''kt'', ''kts''],
        patterns = [''**/src/test/**/*.kt'', ''**/*Test.kt'', ''**/*Tests.kt''],
        frameworks = [''junit'', ''spek'', ''kotest'']\<rparr>)]"

text \<open>All glob patterns of a registry, in the order in which the nested loops visit them.\<close>

definition allPatterns :: "registry \<Rightarrow> string list" where
  "allPatterns reg = concat (map (\<lambda>(language, config). patterns config) reg)"

section \<open>TestAnalysisService\<close>

text \<open>
  The private methods of the service are written with a leading underscore in the source
  (\<^verbatim>\<open>_isTestFile\<close>); here they carry the prefix \<open>svc_\<close> instead. The registry
  \<^verbatim>\<open>this.testPatterns\<close> is the first argument of every function that reads it.
\<close>

text \<open>
  A changed file as the service reads it: the path is \<^verbatim>\<open>file.filename || file.path\<close>,
  the line counts are \<^verbatim>\<open>file.additions || 0\<close>, \<^verbatim>\<open>file.deletions || 0\<close> and
  \<^verbatim>\<open>file.changes || 0\<close>. A missing property is \<open>None\<close>.
\<close>

record changed_file =
  cf_filename :: "string option"
  cf_path :: "string option"
  cf_additions :: "nat option"
  cf_deletions :: "nat option"
  cf_changes :: "nat option"

text \<open>\<^verbatim>\<open>file.filename || file.path || ''\<close>\<close>

definition file_name :: "changed_file \<Rightarrow> string" where
  "file_name f = (case js_or (cf_filename f) (cf_path f) of None \<Rightarrow> [] | Some s \<Rightarrow> s)"

text \<open>\<^verbatim>\<open>n || 0\<close>\<close>

definition or_zero :: "nat option \<Rightarrow> nat" where
  "or_zero n = (case n of None \<Rightarrow> 0 | Some k \<Rightarrow> k)"

datatype origin = Existing | Related | Suggested

record test_entry =
  te_path :: string
  te_type :: origin
  te_sourceFile :: "string option"
  te_language :: string
  te_confidence :: real
  te_reason :: string

record source_file =
  sf_path :: string
  sf_language :: string
  sf_additions :: nat
  sf_deletions :: nat
  sf_changes :: nat

datatype severity = High | Medium

record recommendation =
  rec_type :: string
  rec_severity :: severity
  rec_file :: string
  rec_message :: string
  rec_suggestion :: string

record risk_entry =
  risk_file :: string
  risk_value :: nat
  risk_changes :: nat

record risk_analysis =
  totalRisk :: int
  risks :: "risk_entry list"

record statistics =
  stat_totalFiles :: nat
  stat_sourceFiles :: nat
  stat_testFiles :: nat
  stat_relatedTests :: nat

text \<open>
  The properties that only the full result of \<^verbatim>\<open>identifyTests\<close> has; the result for
  an empty input has none of them.
\<close>

record analysis_details =
  existingTests :: "test_entry list"
  relatedTests :: "test_entry list"
  sourceFiles :: "source_file list"
  riskAnalysis :: risk_analysis
  statistics :: statistics

record analysis_result =
  identifiedTests :: "test_entry list"
  coverage :: int
  recommendations :: "recommendation list"
  details :: "analysis_details option"

text \<open>
  \<^verbatim>\<open>_isTestFile\<close>: every pattern of the registry is compiled and tried in turn, the
  first match returns \<^verbatim>\<open>true\<close>; when none matches, the lower-cased name is searched
  for the common test indicators.
\<close>

fun anyPatternMatches :: "string list \<Rightarrow> string \<Rightarrow> js_error + bool" where
  "anyPatternMatches [] filename = Inr False"
| "anyPatternMatches (pattern # ps) filename =
     (case svc_globToRegex pattern of
        Inl e \<Rightarrow> Inl e
      | Inr r \<Rightarrow> if regex_test r filename then Inr True else anyPatternMatches ps filename)"

definition svc_isTestFile :: "registry \<Rightarrow> string \<Rightarrow> js_error + bool" where
  "svc_isTestFile reg filename =
     (let lowerFilename = js_toLowerCase filename in
      case anyPatternMatches (allPatterns reg) filename of
        Inl e \<Rightarrow> Inl e
      | Inr matched \<Rightarrow>
          if matched then Inr True
          else Inr (js_includes lowerFilename ''test'' \<or>
                    js_includes lowerFilename ''spec'' \<or>
                    js_includes lowerFilename ''__tests__''))"

text \<open>\<^verbatim>\<open>_isCodeFile\<close>\<close>

definition codeExtensions :: "string list" where
  "codeExtensions = [''.js'', ''.jsx'', ''.ts'', ''.tsx'', ''.py'', ''.java'', ''.cs'',
                     ''.go'', ''.php'', ''.rb'', ''.rs'', ''.kt'', ''.cpp'', ''.c'', ''.h'']"

definition ignoredPaths :: "string list" where
  "ignoredPaths = [''node_modules'', ''vendor'', ''dist'', ''build'', ''.git'',
                   ''package-lock.json'', ''yarn.lock'']"

definition svc_isCodeFile :: "string \<Rightarrow> bool" where
  "svc_isCodeFile filename =
     (if list_ex (\<lambda>ignored. js_includes filename ignored) ignoredPaths then False
      else list_ex (\<lambda>ext. js_endsWith filename ext) codeExtensions)"

text \<open>\<^verbatim>\<open>_detectLanguage\<close>\<close>

definition svc_detectLanguage :: "registry \<Rightarrow> string \<Rightarrow> string" where
  "svc_detectLanguage reg filename =
     (let ext = js_toLowerCase (last (js_split CHR ''.'' filename)) in
      case find (\<lambda>(language, config). ext \<in> set (extensions config)) reg of
        None \<Rightarrow> ''unknown''
      | Some (language, config) \<Rightarrow> language)"

text \<open>\<^verbatim>\<open>_identifyExistingTests\<close>\<close>

definition existingEntry :: "registry \<Rightarrow> string \<Rightarrow> test_entry" where
  "existingEntry reg filename =
     \<lparr>te_path = filename, te_type = Existing, te_sourceFile = None,
      te_language = svc_detectLanguage reg filename, te_confidence = 1,
      te_reason = ''Direct test file modification''\<rparr>"

fun svc_identifyExistingTests :: "registry \<Rightarrow> changed_file list \<Rightarrow> js_error + test_entry list" where
  "svc_identifyExistingTests reg [] = Inr []"
| "svc_identifyExistingTests reg (file # files) =
     (case svc_isTestFile reg (file_name file) of
        Inl e \<Rightarrow> Inl e
      | Inr isTest \<Rightarrow>
          (case svc_identifyExistingTests reg files of
             Inl e \<Rightarrow> Inl e
           | Inr testFiles \<Rightarrow>
               Inr (if isTest then existingEntry reg (file_name file) # testFiles
                    else testFiles)))"

text \<open>
  \<^verbatim>\<open>_identifySourceFiles\<close>. A file that passes the filter has a name that ends with a
  code extension, so \<^verbatim>\<open>file.filename || file.path\<close> in the mapping step is that name.
\<close>

definition sourceEntry :: "registry \<Rightarrow> changed_file \<Rightarrow> source_file" where
  "sourceEntry reg file =
     \<lparr>sf_path = file_name file, sf_language = svc_detectLanguage reg (file_name file),
      sf_additions = or_zero (cf_additions file), sf_deletions = or_zero (cf_deletions file),
      sf_changes = or_zero (cf_changes file)\<rparr>"

fun svc_identifySourceFiles :: "registry \<Rightarrow> changed_file list \<Rightarrow> js_error + source_file list" where
  "svc_identifySourceFiles reg [] = Inr []"
| "svc_identifySourceFiles reg (file # files) =
     (case svc_isTestFile reg (file_name file) of
        Inl e \<Rightarrow> Inl e
      | Inr isTest \<Rightarrow>
          (case svc_identifySourceFiles reg files of
             Inl e \<Rightarrow> Inl e
           | Inr rest \<Rightarrow>
               Inr (if \<not> isTest \<and> svc_isCodeFile (file_name file)
                    then sourceEntry reg file # rest else rest)))"

text \<open>\<^verbatim>\<open>_generateTestPaths\<close>\<close>

definition svc_generateTestPaths :: "string \<Rightarrow> string list" where
  "svc_generateTestPaths sourcePath =
     (let parts = js_split CHR ''/'' sourcePath;
          filename = last parts;
          dir = js_join ''/'' (butlast parts);
          nameWithoutExt = js_join ''.'' (butlast (js_split CHR ''.'' filename));
          ext = last (js_split CHR ''.'' filename)
      in [dir @ ''/'' @ nameWithoutExt @ ''.test.'' @ ext,
          dir @ ''/'' @ nameWithoutExt @ ''.spec.'' @ ext,
          dir @ ''/__tests__/'' @ filename,
          dir @ ''/__tests__/'' @ nameWithoutExt @ ''.test.'' @ ext,
          dir @ ''/tests/'' @ filename,
          dir @ ''/test/'' @ filename]
         @ (case js_indexOf parts ''src'' of
              None \<Rightarrow> []
            | Some srcIndex \<Rightarrow>
                [js_join ''/'' (parts[srcIndex := ''test'']),
                 js_join ''/'' (parts[srcIndex := ''tests''])]))"

text \<open>\<^verbatim>\<open>_findRelatedTests\<close>\<close>

definition relatedEntry :: "source_file \<Rightarrow> string \<Rightarrow> test_entry" where
  "relatedEntry sourceFile testPath =
     \<lparr>te_path = testPath, te_type = Related, te_sourceFile = Some (sf_path sourceFile),
      te_language = sf_language sourceFile, te_confidence = 9 / 10,
      te_reason = ''Test file for modified source''\<rparr>"

definition suggestedEntry :: "source_file \<Rightarrow> string \<Rightarrow> test_entry" where
  "suggestedEntry sourceFile testPath =
     \<lparr>te_path = testPath, te_type = Suggested, te_sourceFile = Some (sf_path sourceFile),
      te_language = sf_language sourceFile, te_confidence = 6 / 10,
      te_reason = ''Suggested test file based on naming convention''\<rparr>"

definition relatedTestsFor :: "changed_file list \<Rightarrow> source_file \<Rightarrow> test_entry list" where
  "relatedTestsFor allFiles sourceFile =
     (let possibleTestPaths = svc_generateTestPaths (sf_path sourceFile) in
      map (relatedEntry sourceFile)
        (filter (\<lambda>testPath. list_ex (\<lambda>f. js_or (cf_filename f) (cf_path f) = Some testPath) allFiles)
           possibleTestPaths)
      @ (case possibleTestPaths of
           [] \<Rightarrow> []
         | first # others \<Rightarrow> [suggestedEntry sourceFile first]))"

definition svc_findRelatedTests :: "source_file list \<Rightarrow> changed_file list \<Rightarrow> test_entry list" where
  "svc_findRelatedTests srcs allFiles = concat (map (relatedTestsFor allFiles) srcs)"

text \<open>
  \<^verbatim>\<open>_calculateCoverage\<close>, in exact arithmetic. The code computes the quotient and the
  product in double precision, which can round to the neighbouring integer where the
  exact value lies on a half (23 related entries for 40 source files give 57 in the code
  and 58 here); where the quotient is an integer the two agree.
\<close>

definition svc_calculateCoverage :: "source_file list \<Rightarrow> test_entry list \<Rightarrow> int" where
  "svc_calculateCoverage srcs related =
     (if length srcs = 0 then 100
      else (let testedFiles = length (filter (\<lambda>t. te_type t = Related) related)
            in js_round (real testedFiles / real (length srcs) * 100)))"

text \<open>\<^verbatim>\<open>_generateRecommendations\<close>\<close>

definition missingTest :: "source_file \<Rightarrow> recommendation" where
  "missingTest sourceFile =
     \<lparr>rec_type = ''missing_test'',
      rec_severity = (if sf_changes sourceFile > 50 then High else Medium),
      rec_file = sf_path sourceFile,
      rec_message = ''No test file found for '' @ sf_path sourceFile,
      rec_suggestion = ''Create test at: '' @
        (case svc_generateTestPaths (sf_path sourceFile) of
           [] \<Rightarrow> ''undefined'' | first # others \<Rightarrow> first)\<rparr>"

definition svc_generateRecommendations :: "source_file list \<Rightarrow> test_entry list \<Rightarrow> recommendation list" where
  "svc_generateRecommendations srcs related =
     (let testedPaths = map te_sourceFile related in
      map missingTest (filter (\<lambda>sourceFile. Some (sf_path sourceFile) \<notin> set testedPaths) srcs))"

text \<open>
  \<^verbatim>\<open>_analyzeRisk\<close>. The name handed to \<^verbatim>\<open>_isTestFile\<close> is
  \<^verbatim>\<open>file.filename || file.path\<close> without a default, so a file with neither property
  raises a TypeError. The sort is stable and descending in the risk. The model is that of
  a non-empty list, which is all \<^verbatim>\<open>identifyTests\<close> ever hands over: on the empty list
  the code divides 0 by 0 and the total risk is not a number.
\<close>

definition file_changes :: "changed_file \<Rightarrow> nat" where
  "file_changes file =
     (if or_zero (cf_changes file) \<noteq> 0 then or_zero (cf_changes file)
      else or_zero (cf_additions file) + or_zero (cf_deletions file))"

definition sizeRisk :: "nat \<Rightarrow> nat" where
  "sizeRisk changes = (if changes > 100 then 30 else if changes > 50 then 20
                       else if changes > 10 then 10 else 0)"

definition fileRisk :: "registry \<Rightarrow> changed_file \<Rightarrow> js_error + risk_entry" where
  "fileRisk reg file =
     (case js_or (cf_filename file) (cf_path file) of
        None \<Rightarrow> Inl TypeError
      | Some name \<Rightarrow>
          (case svc_isTestFile reg name of
             Inl e \<Rightarrow> Inl e
           | Inr isTest \<Rightarrow>
               Inr \<lparr>risk_file = name,
                    risk_value = sizeRisk (file_changes file) + (if \<not> isTest then 10 else 0),
                    risk_changes = file_changes file\<rparr>))"

fun fileRisks :: "registry \<Rightarrow> changed_file list \<Rightarrow> js_error + risk_entry list" where
  "fileRisks reg [] = Inr []"
| "fileRisks reg (file # files) =
     (case fileRisk reg file of
        Inl e \<Rightarrow> Inl e
      | Inr r \<Rightarrow> (case fileRisks reg files of Inl e \<Rightarrow> Inl e | Inr rs \<Rightarrow> Inr (r # rs)))"

definition svc_analyzeRisk :: "registry \<Rightarrow> changed_file list \<Rightarrow> js_error + risk_analysis" where
  "svc_analyzeRisk reg changedFiles =
     (case fileRisks reg changedFiles of
        Inl e \<Rightarrow> Inl e
      | Inr rs \<Rightarrow>
          Inr \<lparr>totalRisk =
                 min (js_round (real (sum_list (map risk_value rs)) / real (length changedFiles))) 100,
               risks =
                 sort_key (\<lambda>r. - int (risk_value r))
                   (map (\<lambda>r. r\<lparr>risk_value := min (risk_value r) 100\<rparr>)
                      (filter (\<lambda>r. risk_value r > 0) rs))\<rparr>)"

text \<open>
  \<^verbatim>\<open>identifyTests\<close>. The elements of \<^verbatim>\<open>new Set([...existingTests, ...relatedTests])\<close>
  are freshly built objects, which a Set compares by identity: the spread of the Set is
  the concatenation of the two lists.
\<close>

definition svc_identifyTests :: "registry \<Rightarrow> changed_file list \<Rightarrow> js_error + analysis_result" where
  "svc_identifyTests reg changedFiles =
     (if length changedFiles = 0
      then Inr \<lparr>identifiedTests = [], coverage = 0, recommendations = [], details = None\<rparr>
      else
        case svc_identifyExistingTests reg changedFiles of
          Inl e \<Rightarrow> Inl e
        | Inr existing \<Rightarrow>
            (case svc_identifySourceFiles reg changedFiles of
               Inl e \<Rightarrow> Inl e
             | Inr srcs \<Rightarrow>
                 (let related = svc_findRelatedTests srcs changedFiles in
                  case svc_analyzeRisk reg changedFiles of
                    Inl e \<Rightarrow> Inl e
                  | Inr risk \<Rightarrow>
                      Inr \<lparr>identifiedTests = existing @ related,
                           coverage = svc_calculateCoverage srcs related,
                           recommendations = svc_generateRecommendations srcs related,
                           details = Some
                             \<lparr>existingTests = existing, relatedTests = related,
                              sourceFiles = srcs, riskAnalysis = risk,
                              statistics =
                                \<lparr>stat_totalFiles = length changedFiles,
                                 stat_sourceFiles = length srcs,
                                 stat_testFiles = length existing,
                                 stat_relatedTests = length related\<rparr>\<rparr>\<rparr>)))"

text \<open>
  The role that the two filters give a path: a test file when \<^verbatim>\<open>_isTestFile\<close> holds
  (the filter of \<^verbatim>\<open>_identifyExistingTests\<close>), a source file when it does not and
  \<^verbatim>\<open>_isCodeFile\<close> holds (the filter of \<^verbatim>\<open>_identifySourceFiles\<close>), and ignored
  otherwise.
\<close>

datatype role = Test | Source | Ignored

definition classify :: "registry \<Rightarrow> string \<Rightarrow> js_error + role" where
  "classify reg filename =
     (case svc_isTestFile reg filename of
        Inl e \<Rightarrow> Inl e
      | Inr isTest \<Rightarrow>
          Inr (if isTest then Test else if svc_isCodeFile filename then Source else Ignored))"

section \<open>TestAnalyzer\<close>

text \<open>
  The class body of \<^verbatim>\<open>TestAnalyzer\<close> defines \<^verbatim>\<open>globToRegex\<close>,
  \<^verbatim>\<open>identifyRelevantTests\<close>, \<^verbatim>\<open>getTestType\<close> and others twice; the later
  definition replaces the earlier one. The earlier definitions that matter here carry the
  suffix \<open>_first\<close>.
\<close>

record code_change =
  cc_fileName :: string
  cc_file :: "string option"
  cc_fileExtension :: string
  cc_changeType :: string
  cc_modifiedFunctions :: "string list"
  cc_addedLines :: "string list"
  cc_removedLines :: "string list"

text \<open>
  \<^verbatim>\<open>estimatedMethods\<close> is a number for a pattern match and a list of names for a
  test found by the alternative detection.
\<close>

datatype methods = MethodCount nat | MethodNames "string list"

record repo_test =
  rt_fileName :: string
  rt_language :: string
  rt_framework :: string
  rt_type :: string
  rt_confidence :: nat
  rt_reason :: string
  rt_estimatedMethods :: methods

text \<open>The result of the second \<^verbatim>\<open>identifyRelevantTests\<close>: the test with three properties set.\<close>

record relevant_test = repo_test +
  rt_relatedFile :: string

text \<open>The result of the first \<^verbatim>\<open>identifyRelevantTests\<close>.\<close>

record relevant_test_first =
  rf_fileName :: string
  rf_confidence :: nat
  rf_methods :: methods
  rf_type :: string
  rf_language :: string
  rf_relatedFile :: string
  rf_reason :: string

subsection \<open>Finding the tests of a repository\<close>

text \<open>\<^verbatim>\<open>loadTestPatterns\<close>\<close>

definition loadTestPatterns :: registry where
  "loadTestPatterns =
    [(''javascript'', \<lparr>extensions = [''js'', ''jsx'', ''mjs''],
        patterns = [''**/*.test.js'', ''**/*.spec.js'', ''**/test/**/*.js'',
                    ''**/tests/**/*.js'', ''**/__tests__/**/*.js''],
        frameworks = [''jest'', ''mocha'', ''jasmine'', ''vitest'']\<rparr>),
     (''typescript'', \<lparr>extensions = [''ts'', ''tsx''],
        patterns = [''**/*.test.ts'', ''**/*.spec.ts'', ''**/test/**/*.ts'',
                    ''**/tests/**/*.ts'', ''**/__tests__/**/*.ts''],
        frameworks = [''jest'', ''mocha'', ''jasmine'', ''vitest'']\<rparr>),
     (''python'', \<lparr>extensions = [''py''],
        patterns = [''**/test_*.py'', ''**/*_test.py'', ''**/tests/**/*.py'',
                    ''**/test/**/*.py''],
        frameworks = [''pytest'', ''unittest'', ''nose2'']\<rparr>),
     (''java'', \<lparr>extensions = [''java''],
        patterns = [''**/src/test/**/*.java'', ''**/*Test.java'', ''**/*Tests.java'',
                    ''**/test/**/*.java''],
        frameworks = [''junit'', ''testng'', ''spock'']\<rparr>)]"

text \<open>\<^verbatim>\<open>detectProjectLanguages\<close>\<close>

definition languageIndicators :: "(string \<times> string list) list" where
  "languageIndicators =
    [(''javascript'', [''.js'', ''package.json'', ''.jsx'']),
     (''typescript'', [''.ts'', ''.tsx'', ''tsconfig.json'']),
     (''java'', [''.java'', ''pom.xml'', ''build.gradle'']),
     (''python'', [''.py'', ''requirements.txt'', ''setup.py'', ''pyproject.toml'']),
     (''csharp'', [''.cs'', ''.csproj'', ''.sln'']),
     (''go'', [''.go'', ''go.mod'']),
     (''php'', [''.php'', ''composer.json''])]"

definition detectProjectLanguages :: "string list \<Rightarrow> string list" where
  "detectProjectLanguages files =
     (let detectedLanguages =
            map fst (filter (\<lambda>(language, indicators).
                      list_ex (\<lambda>indicator. list_ex (\<lambda>file. js_includes file indicator) files)
                        indicators)
                    languageIndicators)
      in if length detectedLanguages > 0 then detectedLanguages else [''javascript''])"

text \<open>\<^verbatim>\<open>calculateTestConfidence\<close>\<close>

definition calculateTestConfidence :: "string \<Rightarrow> string \<Rightarrow> nat" where
  "calculateTestConfidence fileName pattern =
     min (50
          + (if js_includes fileName ''.test.'' \<or> js_includes fileName ''.spec.'' then 30 else 0)
          + (if js_includes fileName ''/test/'' \<or> js_includes fileName ''/tests/'' then 20 else 0)
          + (if js_includes fileName ''__tests__'' then 25 else 0)
          + (if js_includes pattern ''**/*.test.'' \<or> js_includes pattern ''**/*.spec.'' then 15 else 0))
         95"

text \<open>\<^verbatim>\<open>getTestType\<close> (second definition) and \<^verbatim>\<open>estimateTestMethods\<close>\<close>

definition getTestType :: "string \<Rightarrow> string" where
  "getTestType fileName =
     (if js_includes fileName ''unit'' then ''unit''
      else if js_includes fileName ''integration'' then ''integration''
      else if js_includes fileName ''e2e'' \<or> js_includes fileName ''end-to-end'' then ''e2e''
      else ''unit'')"

definition estimateTestMethods :: "string \<Rightarrow> nat" where
  "estimateTestMethods fileName =
     (if js_includes fileName ''integration'' then 5 * 2
      else if js_includes fileName ''e2e'' then 5 * 3
      else 5)"

text \<open>
  \<^verbatim>\<open>getLanguageFromFile\<close> and \<^verbatim>\<open>getLanguageFromExtension\<close>. The lookup in the
  object literal is modelled for the keys that are not names of inherited properties of
  an object (such as \<^verbatim>\<open>constructor\<close>).
\<close>

definition getLanguageFromFile :: "string \<Rightarrow> string" where
  "getLanguageFromFile fileName =
     (case map_of [(''js'', ''javascript''), (''jsx'', ''javascript''), (''ts'', ''typescript''),
                   (''tsx'', ''typescript''), (''py'', ''python''), (''java'', ''java''),
                   (''cs'', ''csharp''), (''go'', ''go''), (''php'', ''php'')]
             (js_toLowerCase (last (js_split CHR ''.'' fileName))) of
        None \<Rightarrow> ''unknown'' | Some language \<Rightarrow> language)"

definition getLanguageFromExtension :: "string \<Rightarrow> string" where
  "getLanguageFromExtension extension =
     (case map_of [(''js'', ''javascript''), (''jsx'', ''javascript''), (''ts'', ''typescript''),
                   (''tsx'', ''typescript''), (''java'', ''java''), (''py'', ''python''),
                   (''cs'', ''csharp''), (''go'', ''go''), (''php'', ''php'')] extension of
        None \<Rightarrow> ''unknown'' | Some language \<Rightarrow> language)"

text \<open>\<^verbatim>\<open>findTestsAlternativeMethod\<close>\<close>

definition testIndicators :: "string list" where
  "testIndicators = [''test'', ''spec'', ''__tests__'', ''tests'',
                     ''Test'', ''Spec'', ''Tests'', ''TESTS'']"

definition isLikelyTestFile :: "string \<Rightarrow> bool" where
  "isLikelyTestFile fileName =
     (js_includes fileName ''.test.'' \<or> js_includes fileName ''.spec.'' \<or>
      js_includes fileName ''/test/'' \<or> js_includes fileName ''/tests/'' \<or>
      js_includes fileName ''__tests__'' \<or>
      js_endsWith fileName ''test.js'' \<or> js_endsWith fileName ''spec.js'' \<or>
      js_endsWith fileName ''test.ts'' \<or> js_endsWith fileName ''spec.ts'')"

definition alternativeTest :: "string \<Rightarrow> repo_test" where
  "alternativeTest file =
     \<lparr>rt_fileName = file, rt_language = getLanguageFromFile file, rt_framework = ''unknown'',
      rt_type = ''unit'', rt_confidence = 60,
      rt_reason = ''Alternative detection: contains test indicators'',
      rt_estimatedMethods = MethodNames [''test1'', ''test2'', ''test3'']\<rparr>"

definition findTestsAlternativeMethod :: "string list \<Rightarrow> repo_test list" where
  "findTestsAlternativeMethod files =
     map alternativeTest
       (filter (\<lambda>file.
           (let fileName = js_toLowerCase file;
                hasTestIndicator =
                  list_ex (\<lambda>indicator. js_includes fileName (js_toLowerCase indicator)) testIndicators
            in hasTestIndicator \<and> isLikelyTestFile fileName))
          files)"

text \<open>
  \<^verbatim>\<open>findExistingTests\<close>. The strict pass visits the detected languages, the patterns of
  each language that has a configuration, and the files; the alternative detection runs
  when the strict pass has found nothing.
\<close>

fun collect :: "('a \<Rightarrow> js_error + 'b list) \<Rightarrow> 'a list \<Rightarrow> js_error + 'b list" where
  "collect f [] = Inr []"
| "collect f (x # xs) =
     (case f x of
        Inl e \<Rightarrow> Inl e
      | Inr ys \<Rightarrow> (case collect f xs of Inl e \<Rightarrow> Inl e | Inr zs \<Rightarrow> Inr (ys @ zs)))"

definition patternTest :: "string \<Rightarrow> language_config \<Rightarrow> string \<Rightarrow> string \<Rightarrow> repo_test" where
  "patternTest language languageConfig pattern file =
     \<lparr>rt_fileName = file, rt_language = language,
      rt_framework = (case frameworks languageConfig of
                        [] \<Rightarrow> ''unknown''
                      | fw # others \<Rightarrow> if fw = [] then ''unknown'' else fw),
      rt_type = getTestType file,
      rt_confidence = calculateTestConfidence file pattern,
      rt_reason = ''Matches '' @ language @ '' test pattern: '' @ pattern,
      rt_estimatedMethods = MethodCount (estimateTestMethods file)\<rparr>"

definition testsOfPattern ::
  "string list \<Rightarrow> string \<Rightarrow> language_config \<Rightarrow> string \<Rightarrow> js_error + repo_test list" where
  "testsOfPattern files language languageConfig pattern =
     (case globToRegex pattern of
        Inl e \<Rightarrow> Inl e
      | Inr regex \<Rightarrow>
          Inr (map (patternTest language languageConfig pattern) (filter (regex_test regex) files)))"

definition testsOfLanguage :: "string list \<Rightarrow> string \<Rightarrow> js_error + repo_test list" where
  "testsOfLanguage files language =
     (case map_of loadTestPatterns language of
        None \<Rightarrow> Inr []
      | Some languageConfig \<Rightarrow>
          collect (testsOfPattern files language languageConfig) (patterns languageConfig))"

definition strictPass :: "string list \<Rightarrow> js_error + repo_test list" where
  "strictPass files = collect (testsOfLanguage files) (detectProjectLanguages files)"

definition findExistingTests :: "string list \<Rightarrow> js_error + repo_test list" where
  "findExistingTests files =
     (case strictPass files of
        Inl e \<Rightarrow> Inl e
      | Inr testFiles \<Rightarrow>
          if length testFiles = 0 then Inr (testFiles @ findTestsAlternativeMethod files)
          else Inr testFiles)"

subsection \<open>Relevant tests, first definition\<close>

text \<open>\<^verbatim>\<open>calculateTestRelevance\<close>: the weighted score of a changed file and a test, in percent.\<close>

definition calculateTestRelevance :: "code_change \<Rightarrow> repo_test \<Rightarrow> nat" where
  "calculateTestRelevance codeChange testFile =
     (let fileName = cc_fileName codeChange;
          codeFileName = hd (js_split CHR ''.'' (last (js_split CHR ''/'' fileName)));
          testFileName = last (js_split CHR ''/'' (rt_fileName testFile));
          codeDir = js_join ''/'' (butlast (js_split CHR ''/'' fileName));
          testDir = js_join ''/'' (butlast (js_split CHR ''/'' (rt_fileName testFile)))
      in min ((if js_includes (js_toLowerCase testFileName) (js_toLowerCase codeFileName)
               then 50 else 0)
              + (if js_includes testDir codeDir \<or> js_includes codeDir testDir then 30 else 0)
              + 20 * length (filter (\<lambda>func. js_includes (js_toLowerCase testFileName)
                                                (js_toLowerCase func))
                               (cc_modifiedFunctions codeChange))
              + (if getLanguageFromExtension (cc_fileExtension codeChange) = rt_language testFile
                 then 10 else 0))
             100)"

text \<open>\<^verbatim>\<open>getRelevanceReason\<close>\<close>

definition getRelevanceReason :: "nat \<Rightarrow> string" where
  "getRelevanceReason confidence =
     (if confidence \<ge> 70 then ''High similarity in file names and structure''
      else if confidence \<ge> 50 then ''Moderate similarity in naming patterns''
      else if confidence \<ge> 30 then ''Potential relationship based on directory structure''
      else ''Low confidence match'')"

text \<open>
  The body of the two nested loops of the first \<^verbatim>\<open>identifyRelevantTests\<close>: what one
  pair of a change and a test adds to \<^verbatim>\<open>relevantTests\<close>.
\<close>

definition relevantPair_first :: "code_change \<Rightarrow> repo_test \<Rightarrow> relevant_test_first list" where
  "relevantPair_first change test =
     (let confidence = calculateTestRelevance change test in
      if confidence > 30
      then [\<lparr>rf_fileName = rt_fileName test, rf_confidence = confidence,
             rf_methods = (if rt_estimatedMethods test = MethodCount 0 then MethodNames []
                           else rt_estimatedMethods test),
             rf_type = rt_type test, rf_language = rt_language test,
             rf_relatedFile = cc_fileName change,
             rf_reason = getRelevanceReason confidence\<rparr>]
      else [])"

definition relevantTests_first :: "code_change list \<Rightarrow> repo_test list \<Rightarrow> relevant_test_first list" where
  "relevantTests_first codeChanges tests =
     concat (map (\<lambda>change. concat (map (relevantPair_first change) tests)) codeChanges)"

text \<open>\<^verbatim>\<open>removeDuplicateTests\<close>: the set \<^verbatim>\<open>seen\<close> is threaded through the filter.\<close>

fun removeDuplicateTests_seen ::
  "string list \<Rightarrow> relevant_test_first list \<Rightarrow> relevant_test_first list" where
  "removeDuplicateTests_seen seen [] = []"
| "removeDuplicateTests_seen seen (test # tests) =
     (if rf_fileName test \<in> set seen then removeDuplicateTests_seen seen tests
      else test # removeDuplicateTests_seen (rf_fileName test # seen) tests)"

definition removeDuplicateTests :: "relevant_test_first list \<Rightarrow> relevant_test_first list" where
  "removeDuplicateTests tests = removeDuplicateTests_seen [] tests"

text \<open>
  \<^verbatim>\<open>identifyRelevantTests\<close>, first definition, with \<^verbatim>\<open>this.config.maxTestsToRun\<close> as
  a parameter. The sort is stable and descending in the confidence.
\<close>

definition identifyRelevantTests_first ::
  "nat \<Rightarrow> code_change list \<Rightarrow> repo_test list \<Rightarrow> relevant_test_first list" where
  "identifyRelevantTests_first maxTestsToRun codeChanges tests =
     take maxTestsToRun
       (sort_key (\<lambda>t. - int (rf_confidence t))
          (removeDuplicateTests (relevantTests_first codeChanges tests)))"

subsection \<open>Relevant tests, second definition\<close>

text \<open>\<^verbatim>\<open>areFilesRelated\<close>\<close>

definition areFilesRelated :: "string \<Rightarrow> string \<Rightarrow> bool" where
  "areFilesRelated file1 file2 =
     (let name1 = removeExtension (last (js_split CHR ''/'' file1));
          name2 = removeExtension (last (js_split CHR ''/'' file2))
      in js_includes (js_toLowerCase name1) (js_toLowerCase name2) \<or>
         js_includes (js_toLowerCase name2) (js_toLowerCase name1))"

text \<open>\<^verbatim>\<open>change.file || change.fileName\<close>\<close>

definition changedFileOf :: "code_change \<Rightarrow> string" where
  "changedFileOf change =
     (case cc_file change of
        None \<Rightarrow> cc_fileName change
      | Some f \<Rightarrow> if f = [] then cc_fileName change else f)"

text \<open>The confidence and the reason that the chain of conditions gives a pair.\<close>

definition pairConfidence :: "code_change \<Rightarrow> repo_test \<Rightarrow> nat \<times> string" where
  "pairConfidence change test =
     (let changedFile = changedFileOf change;
          baseName = removeExtension changedFile;
          directory = js_join ''/'' (butlast (js_split CHR ''/'' changedFile))
      in if js_includes (rt_fileName test) baseName then (90, ''Tests file with same name'')
         else if js_includes (rt_fileName test) directory then (70, ''Tests in same directory'')
         else if areFilesRelated changedFile (rt_fileName test) then (60, ''Related functionality'')
         else (0, []))"

definition relevantPair :: "code_change \<Rightarrow> repo_test \<Rightarrow> relevant_test list" where
  "relevantPair change test =
     (case pairConfidence change test of
        (confidence, reason) \<Rightarrow>
          if confidence > 50
          then [\<lparr>rt_fileName = rt_fileName test, rt_language = rt_language test,
                 rt_framework = rt_framework test, rt_type = rt_type test,
                 rt_confidence = confidence, rt_reason = reason,
                 rt_estimatedMethods = rt_estimatedMethods test,
                 rt_relatedFile = changedFileOf change\<rparr>]
          else [])"

definition relevantTests :: "code_change list \<Rightarrow> repo_test list \<Rightarrow> relevant_test list" where
  "relevantTests codeChanges tests =
     concat (map (\<lambda>change. concat (map (relevantPair change) tests)) codeChanges)"

text \<open>\<^verbatim>\<open>xs.findIndex(p)\<close>, with \<open>None\<close> for \<open>-1\<close>.\<close>

fun js_findIndex :: "('a \<Rightarrow> bool) \<Rightarrow> 'a list \<Rightarrow> nat option" where
  "js_findIndex p [] = None"
| "js_findIndex p (x # xs) = (if p x then Some 0 else map_option Suc (js_findIndex p xs))"

text \<open>
  \<^verbatim>\<open>self.filter((test, index, self) => index === self.findIndex(t => t.fileName === test.fileName))\<close>
\<close>

definition uniqueTests :: "relevant_test list \<Rightarrow> relevant_test list" where
  "uniqueTests self =
     map snd (filter (\<lambda>(index, test).
                 js_findIndex (\<lambda>t. rt_fileName t = rt_fileName test) self = Some index)
               (enumerate 0 self))"

text \<open>\<^verbatim>\<open>identifyRelevantTests\<close>, second definition (the one in force).\<close>

definition identifyRelevantTests :: "code_change list \<Rightarrow> repo_test list \<Rightarrow> relevant_test list" where
  "identifyRelevantTests codeChanges tests =
     sort_key (\<lambda>t. - int (rt_confidence t)) (uniqueTests (relevantTests codeChanges tests))"

subsection \<open>Coverage analysis\<close>

record coverage_analysis =
  estimated :: int
  criticalPaths :: nat
  riskScore :: int
  totalChangedLines :: nat
  totalChangedFiles :: nat
  testFilesCount :: nat
  testCoverage :: string

text \<open>
  \<^verbatim>\<open>analyzeCoverage\<close>, in exact arithmetic (the code computes in double precision,
  with the same difference as in \<^verbatim>\<open>_calculateCoverage\<close>); of the tests only their
  number is used.
  The computations of the local variables \<^verbatim>\<open>estimatedCoverage\<close> and
  \<^verbatim>\<open>criticalPaths\<close> are functions of their own here.
\<close>

definition estimatedCoverageOf :: "nat \<Rightarrow> nat \<Rightarrow> int" where
  "estimatedCoverageOf totalFiles testCount =
     (if totalFiles > 0 then
        (let filesCovered = min testCount totalFiles;
             base = js_round (real filesCovered / real totalFiles * 100)
         in if testCount > totalFiles
            then min 95 (base + int (min 20 ((testCount - totalFiles) * 5)))
            else base)
      else 0)"

definition criticalPathsOf :: "code_change list \<Rightarrow> nat" where
  "criticalPathsOf codeChanges =
     length (filter (\<lambda>change.
                list_ex (\<lambda>func. js_toLowerCase func \<in>
                           set [''main'', ''init'', ''constructor'', ''setup''])
                  (cc_modifiedFunctions change)) codeChanges)"

definition analyzeCoverage :: "code_change list \<Rightarrow> 'a list \<Rightarrow> coverage_analysis" where
  "analyzeCoverage codeChanges tests =
     (let totalLines = sum_list (map (\<lambda>change. length (cc_addedLines change)
                                               + length (cc_removedLines change)) codeChanges);
          totalFiles = length codeChanges;
          testCount = length tests;
          estimatedCoverage = estimatedCoverageOf totalFiles testCount;
          critical = criticalPathsOf codeChanges;
          risk = max 0 (min 100 (100 - estimatedCoverage + int critical * 10))
      in \<lparr>estimated = estimatedCoverage, criticalPaths = critical, riskScore = risk,
          totalChangedLines = totalLines, totalChangedFiles = totalFiles,
          testFilesCount = testCount,
          testCoverage = (if estimatedCoverage \<ge> 80 then ''Excellent''
                          else if estimatedCoverage \<ge> 60 then ''Good''
                          else if estimatedCoverage \<ge> 40 then ''Fair'' else ''Poor'')\<rparr>)"

subsection \<open>The analysis of a pull request\<close>

text \<open>\<^verbatim>\<open>generateTestSuggestions\<close> (second definition)\<close>

record suggestion =
  sg_fileName :: string
  sg_type :: string
  sg_reason :: string
  sg_confidence :: nat
  sg_template :: string

definition generateTestSuggestions :: "code_change list \<Rightarrow> suggestion list" where
  "generateTestSuggestions codeChanges =
     map (\<lambda>change.
            \<lparr>sg_fileName = removeExtension (changedFileOf change) @ ''.test.js'',
             sg_type = ''suggested'',
             sg_reason = ''No existing tests found for modified file'',
             sg_confidence = 80, sg_template = ''unit-test''\<rparr>)
         codeChanges"

text \<open>The change that \<^verbatim>\<open>analyzeTests\<close> makes up when it is given no code changes.\<close>

definition defaultChange :: code_change where
  "defaultChange = \<lparr>cc_fileName = ''src/main.js'', cc_file = None, cc_fileExtension = ''js'',
                    cc_changeType = ''modified'', cc_modifiedFunctions = [''main'', ''init''],
                    cc_addedLines = [], cc_removedLines = []\<rparr>"

text \<open>
  \<^verbatim>\<open>analyzeTests\<close>, from the point at which the files of the repository are known
  (\<^verbatim>\<open>getRepositoryStructure\<close> fetches them, and yields no files when the fetch fails).
  The arguments are whether \<^verbatim>\<open>prData\<close> names a repository, the files, and the code
  changes. Any exception ends in the \<^verbatim>\<open>catch\<close> branch, which returns the fixed mock
  result (coverage 78, risk score 25); this is \<open>MockAnalysis\<close>. Of the real result the
  properties \<^verbatim>\<open>estimatedRunTime\<close>, \<^verbatim>\<open>repository\<close>, \<^verbatim>\<open>prNumber\<close> and
  \<^verbatim>\<open>source\<close> are left out.
\<close>

record analyzer_result =
  ar_identifiedTests :: "relevant_test list"
  ar_suggestedTests :: "suggestion list"
  ar_coverage :: coverage_analysis
  ar_totalTests :: nat

datatype analyzer_outcome = RealAnalysis analyzer_result | MockAnalysis

definition analyzeTests :: "bool \<Rightarrow> string list \<Rightarrow> code_change list \<Rightarrow> analyzer_outcome" where
  "analyzeTests hasRepository files codeChanges =
     (if \<not> hasRepository then MockAnalysis
      else
        (let changes = (if length codeChanges = 0 then [defaultChange] else codeChanges) in
         case findExistingTests files of
           Inl e \<Rightarrow> MockAnalysis
         | Inr existing \<Rightarrow>
             (let relevant = identifyRelevantTests changes existing;
                  suggested = (if length relevant = 0 then generateTestSuggestions changes
                               else [])
              in RealAnalysis
                   \<lparr>ar_identifiedTests = relevant, ar_suggestedTests = suggested,
                    ar_coverage = analyzeCoverage changes relevant,
                    ar_totalTests = length relevant\<rparr>)))"

section \<open>Glob semantics of the specification\<close>

text \<open>
  The glob semantics in the words of the specification, to compare the compiled matchers
  with. A pattern and a path are split at the separator; a pattern segment \<^verbatim>\<open>**\<close> stands for
  any number of path segments, including zero; in any other pattern segment \<^verbatim>\<open>*\<close>
  stands for any characters of one path segment, and every other character, the dot
  included, stands for itself.
\<close>

fun spec_segment_matches :: "string \<Rightarrow> string \<Rightarrow> bool" where
  "spec_segment_matches [] s = (s = [])"
| "spec_segment_matches (p # ps) [] = (p = CHR ''*'' \<and> spec_segment_matches ps [])"
| "spec_segment_matches (p # ps) (c # s) =
     (if p = CHR ''*'' then spec_segment_matches ps (c # s) \<or> spec_segment_matches (p # ps) s
      else p = c \<and> spec_segment_matches ps s)"

fun spec_segments_match :: "string list \<Rightarrow> string list \<Rightarrow> bool" where
  "spec_segments_match [] [] = True"
| "spec_segments_match [] (s # ss) = False"
| "spec_segments_match (p # ps) [] = (p = ''**'' \<and> spec_segments_match ps [])"
| "spec_segments_match (p # ps) (s # ss) =
     (if p = ''**'' then spec_segments_match ps (s # ss) \<or> spec_segments_match (p # ps) ss
      else spec_segment_matches p s \<and> spec_segments_match ps ss)"

definition spec_glob_matches :: "string \<Rightarrow> string \<Rightarrow> bool" where
  "spec_glob_matches pattern path =
     spec_segments_match (js_split CHR ''/'' pattern) (js_split CHR ''/'' path)"

section \<open>Auxiliary predicates and example inputs\<close>

text \<open>A glob pattern compiles when \<^verbatim>\<open>_globToRegex\<close> returns a regular expression for it.\<close>

definition compiles :: "string \<Rightarrow> bool" where
  "compiles pattern = (case svc_globToRegex pattern of Inl e \<Rightarrow> False | Inr r \<Rightarrow> True)"

text \<open>A changed file given by its path and its added lines, as the VCS collaborator sends it.\<close>

definition changedFile :: "string \<Rightarrow> nat \<Rightarrow> changed_file" where
  "changedFile p added =
     \<lparr>cf_filename = None, cf_path = Some p, cf_additions = Some added,
      cf_deletions = Some 0, cf_changes = None\<rparr>"

text \<open>
  Two changes of \<^verbatim>\<open>src/user.js\<close> as the content script reports them, and a test of
  the repository.
\<close>

definition userChange :: code_change where
  "userChange = \<lparr>cc_fileName = ''src/user.js'', cc_file = None, cc_fileExtension = ''js'',
                 cc_changeType = ''modified'', cc_modifiedFunctions = [''login''],
                 cc_addedLines = [], cc_removedLines = []\<rparr>"

definition authChange :: code_change where
  "authChange = \<lparr>cc_fileName = ''src/user.js'', cc_file = None, cc_fileExtension = ''js'',
                 cc_changeType = ''modified'', cc_modifiedFunctions = [''login'', ''auth''],
                 cc_addedLines = [], cc_removedLines = []\<rparr>"

definition repoTest :: "string \<Rightarrow> string \<Rightarrow> repo_test" where
  "repoTest name language =
     \<lparr>rt_fileName = name, rt_language = language, rt_framework = ''jest'', rt_type = ''unit'',
      rt_confidence = 95, rt_reason = ''Matches pattern'', rt_estimatedMethods = MethodCount 5\<rparr>"

text \<open>
  Keeping, for every key, the first element that has it; \<open>seen\<close> holds the keys that
  are already taken. Both ways in which \<^verbatim>\<open>TestAnalyzer\<close> removes duplicates compute
  this function.
\<close>

fun keepFirst :: "('a \<Rightarrow> 'k) \<Rightarrow> 'k set \<Rightarrow> 'a list \<Rightarrow> 'a list" where
  "keepFirst key seen [] = []"
| "keepFirst key seen (x # xs) =
     (if key x \<in> seen then keepFirst key seen xs
      else x # keepFirst key (insert (key x) seen) xs)"

text \<open>A glob pattern compiles in \<^verbatim>\<open>TestAnalyzer\<close> when \<^verbatim>\<open>globToRegex\<close> returns.\<close>

definition compiles_anchored :: "string \<Rightarrow> bool" where
  "compiles_anchored pattern = (case globToRegex pattern of Inl e \<Rightarrow> False | Inr r \<Rightarrow> True)"

text \<open>A change of the file with the given name.\<close>

definition changeOf :: "string \<Rightarrow> code_change" where
  "changeOf name = \<lparr>cc_fileName = name, cc_file = None, cc_fileExtension = ''js'',
                    cc_changeType = ''modified'', cc_modifiedFunctions = [],
                    cc_addedLines = [], cc_removedLines = []\<rparr>"

section \<open>Properties\<close>

subsection \<open>The registry compiles, and the service functions return\<close>

lemma anyPatternMatches_total:
  "list_all compiles ps \<Longrightarrow> \<exists>b. anyPatternMatches ps filename = Inr b"
  by (induction ps) (auto simp: compiles_def split: sum.splits)

lemma TEST_PATTERNS_compile: "list_all compiles (allPatterns TEST_PATTERNS)"
  by (simp add: compiles_def allPatterns_def TEST_PATTERNS_def svc_globToRegex_def
      svc_globToRegex_source_def replace1_def RegExp_def special_def)

lemma svc_isTestFile_total:
  "list_all compiles (allPatterns reg) \<Longrightarrow> \<exists>b. svc_isTestFile reg filename = Inr b"
  using anyPatternMatches_total[of "allPatterns reg" filename]
  by (auto simp: svc_isTestFile_def Let_def)

lemma svc_isTestFile_indicator:
  assumes "list_all compiles (allPatterns reg)"
    and "js_includes (js_toLowerCase filename) ''test'' \<or>
         js_includes (js_toLowerCase filename) ''spec''"
  shows "svc_isTestFile reg filename = Inr True"
  using anyPatternMatches_total[OF assms(1), of filename] assms(2)
  by (auto simp: svc_isTestFile_def Let_def)

lemma svc_identifyExistingTests_eq:
  assumes "list_all compiles (allPatterns reg)"
  shows "svc_identifyExistingTests reg files =
         Inr (map (\<lambda>f. existingEntry reg (file_name f))
               (filter (\<lambda>f. svc_isTestFile reg (file_name f) = Inr True) files))"
proof (induction files)
  case Nil
  show ?case by simp
next
  case (Cons f fs)
  obtain b where "svc_isTestFile reg (file_name f) = Inr b"
    using svc_isTestFile_total[OF assms] by blast
  with Cons show ?case by simp
qed

lemma svc_identifySourceFiles_eq:
  assumes "list_all compiles (allPatterns reg)"
  shows "svc_identifySourceFiles reg files =
         Inr (map (sourceEntry reg)
               (filter (\<lambda>f. svc_isTestFile reg (file_name f) = Inr False \<and>
                            svc_isCodeFile (file_name f)) files))"
proof (induction files)
  case Nil
  show ?case by simp
next
  case (Cons f fs)
  obtain b where "svc_isTestFile reg (file_name f) = Inr b"
    using svc_isTestFile_total[OF assms] by blast
  with Cons show ?case by auto
qed

lemma fileRisks_total:
  assumes "list_all compiles (allPatterns reg)"
    and "list_all (\<lambda>f. js_or (cf_filename f) (cf_path f) \<noteq> None) files"
  shows "\<exists>rs. fileRisks reg files = Inr rs \<and> length rs = length files \<and>
              list_all (\<lambda>r. risk_value r \<le> 40) rs"
  using assms(2)
proof (induction files)
  case Nil
  show ?case by simp
next
  case (Cons f fs)
  then obtain name where n: "js_or (cf_filename f) (cf_path f) = Some name" by auto
  obtain b where "svc_isTestFile reg name = Inr b"
    using svc_isTestFile_total[OF assms(1)] by blast
  with Cons n show ?case by (auto simp: fileRisk_def sizeRisk_def)
qed

lemma svc_analyzeRisk_total:
  assumes "list_all compiles (allPatterns reg)"
    and "list_all (\<lambda>f. js_or (cf_filename f) (cf_path f) \<noteq> None) files"
  shows "\<exists>risk. svc_analyzeRisk reg files = Inr risk"
  using fileRisks_total[OF assms] by (auto simp: svc_analyzeRisk_def)

text \<open>
  A code file has a name, so the mapping step of \<^verbatim>\<open>_identifySourceFiles\<close> reads the
  name that the filter has seen.
\<close>

lemma svc_isCodeFile_named:
  assumes "svc_isCodeFile (file_name file)"
  shows "js_or (cf_filename file) (cf_path file) = Some (file_name file)"
proof -
  have "\<not> svc_isCodeFile []"
    by (simp add: svc_isCodeFile_def codeExtensions_def js_endsWith_def)
  with assms have "file_name file \<noteq> []" by auto
  then show ?thesis
    by (cases "js_or (cf_filename file) (cf_path file)") (simp_all add: file_name_def)
qed

subsection \<open>Empty input\<close>

text \<open>
  Claim C1, as amended. For an empty list of changed files \<^verbatim>\<open>identifyTests\<close> returns,
  whatever the registry, a result with no identified tests, coverage 0 and no
  recommendations; the result carries no risk analysis.
\<close>

theorem C1_empty_input_result:
  "svc_identifyTests reg [] =
     Inr \<lparr>identifiedTests = [], coverage = 0, recommendations = [], details = None\<rparr>"
  by (simp add: svc_identifyTests_def)

text \<open>
  Claim C1 as stated asks for coverage 100 and risk score 0 on the empty input. The
  service returns coverage 0 and no risk analysis at all.
\<close>

theorem C1_empty_input_counterexample:
  "(case svc_identifyTests TEST_PATTERNS [] of
      Inl e \<Rightarrow> False
    | Inr r \<Rightarrow> coverage r = 0 \<and> coverage r \<noteq> 100 \<and> details r = None)"
  by (simp add: svc_identifyTests_def)

text \<open>
  \<^verbatim>\<open>TestAnalyzer.analyzeTests\<close> does not return coverage 100 and risk 0 on an empty
  input either: it analyses a made-up change of \<^verbatim>\<open>src/main.js\<close>. With a repository
  without files, the estimated coverage is 0 and the risk score is 100.
\<close>

lemma findExistingTests_no_files: "findExistingTests [] = Inr []"
  by code_simp

lemma analyzeTests_empty_input:
  "analyzeTests True [] [] =
     RealAnalysis
       \<lparr>ar_identifiedTests = [],
        ar_suggestedTests = generateTestSuggestions [defaultChange],
        ar_coverage = analyzeCoverage [defaultChange] ([] :: relevant_test list),
        ar_totalTests = 0\<rparr> \<and>
   estimated (analyzeCoverage [defaultChange] ([] :: relevant_test list)) = 0 \<and>
   riskScore (analyzeCoverage [defaultChange] ([] :: relevant_test list)) = 100"
proof -
  have "identifyRelevantTests [defaultChange] [] = []"
    by (simp add: identifyRelevantTests_def relevantTests_def uniqueTests_def)
  moreover have "estimatedCoverageOf 1 0 = 0"
    by (simp add: estimatedCoverageOf_def js_round_def)
  moreover have "criticalPathsOf [defaultChange] = 1"
    by (simp add: criticalPathsOf_def defaultChange_def js_toLowerCase_def lower_char_def)
  ultimately show ?thesis
    by (simp add: analyzeTests_def findExistingTests_no_files analyzeCoverage_def Let_def)
qed

subsection \<open>Test indicators in a path\<close>

text \<open>
  Claim C10. A changed file whose lower-cased path contains \<^verbatim>\<open>test\<close> or \<^verbatim>\<open>spec\<close>
  anywhere is a test file for \<^verbatim>\<open>_isTestFile\<close>, whether or not a pattern matches it:
  \<^verbatim>\<open>_identifyExistingTests\<close> emits it as an existing test with confidence 1,
  \<^verbatim>\<open>_identifySourceFiles\<close> leaves it out, and so does the result of
  \<^verbatim>\<open>identifyTests\<close> when every changed file has a path. The registry is any registry
  whose patterns compile.
\<close>

theorem C10_test_indicator_classifies_as_test:
  assumes "list_all compiles (allPatterns reg)"
    and "file \<in> set changedFiles"
    and "js_includes (js_toLowerCase (file_name file)) ''test'' \<or>
         js_includes (js_toLowerCase (file_name file)) ''spec''"
  shows "svc_isTestFile reg (file_name file) = Inr True \<and>
         (\<exists>existing srcs.
            svc_identifyExistingTests reg changedFiles = Inr existing \<and>
            \<lparr>te_path = file_name file, te_type = Existing, te_sourceFile = None,
             te_language = svc_detectLanguage reg (file_name file), te_confidence = 1,
             te_reason = ''Direct test file modification''\<rparr> \<in> set existing \<and>
            svc_identifySourceFiles reg changedFiles = Inr srcs \<and>
            file_name file \<notin> set (map sf_path srcs)) \<and>
         (list_all (\<lambda>f. js_or (cf_filename f) (cf_path f) \<noteq> None) changedFiles \<longrightarrow>
            (\<exists>r. svc_identifyTests reg changedFiles = Inr r \<and>
                 existingEntry reg (file_name file) \<in> set (identifiedTests r) \<and>
                 (\<forall>d. details r = Some d \<longrightarrow>
                      file_name file \<notin> set (map sf_path (sourceFiles d)))))"
proof -
  have t: "svc_isTestFile reg (file_name file) = Inr True"
    using svc_isTestFile_indicator[OF assms(1) assms(3)] .
  have e: "existingEntry reg (file_name file) \<in>
           set (map (\<lambda>f. existingEntry reg (file_name f))
                 (filter (\<lambda>f. svc_isTestFile reg (file_name f) = Inr True) changedFiles))"
    using assms(2) t by auto
  have s: "file_name file \<notin>
           set (map sf_path (map (sourceEntry reg)
                 (filter (\<lambda>f. svc_isTestFile reg (file_name f) = Inr False \<and>
                              svc_isCodeFile (file_name f)) changedFiles)))"
  proof
    assume "file_name file \<in>
           set (map sf_path (map (sourceEntry reg)
                 (filter (\<lambda>f. svc_isTestFile reg (file_name f) = Inr False \<and>
                              svc_isCodeFile (file_name f)) changedFiles)))"
    then obtain g where "svc_isTestFile reg (file_name g) = Inr False"
      and "file_name g = file_name file"
      by (auto simp: sourceEntry_def)
    with t show False by simp
  qed
  have ne: "changedFiles \<noteq> []" using assms(2) by auto
  have full: "\<exists>r. svc_identifyTests reg changedFiles = Inr r \<and>
                 existingEntry reg (file_name file) \<in> set (identifiedTests r) \<and>
                 (\<forall>d. details r = Some d \<longrightarrow>
                      file_name file \<notin> set (map sf_path (sourceFiles d)))"
    if named: "list_all (\<lambda>f. js_or (cf_filename f) (cf_path f) \<noteq> None) changedFiles"
  proof -
    obtain risk where "svc_analyzeRisk reg changedFiles = Inr risk"
      using svc_analyzeRisk_total[OF assms(1) named] by blast
    then show ?thesis
      using e s ne
      by (simp add: svc_identifyTests_def svc_identifyExistingTests_eq[OF assms(1)]
          svc_identifySourceFiles_eq[OF assms(1)] Let_def image_image)
  qed
  show ?thesis
    using t e s full
    by (simp add: svc_identifyExistingTests_eq[OF assms(1)]
        svc_identifySourceFiles_eq[OF assms(1)] existingEntry_def image_image)
qed

text \<open>
  The path \<^verbatim>\<open>src/latest.js\<close> contains \<^verbatim>\<open>test\<close> inside a longer word and matches no
  pattern of the registry.
\<close>

theorem C10_test_indicator_witness:
  "svc_isTestFile TEST_PATTERNS ''src/latest.js'' = Inr True \<and>
   (\<exists>r. svc_identifyTests TEST_PATTERNS [changedFile ''src/latest.js'' 4] = Inr r \<and>
        existingEntry TEST_PATTERNS ''src/latest.js'' \<in> set (identifiedTests r))"
  using C10_test_indicator_classifies_as_test
          [of TEST_PATTERNS "changedFile ''src/latest.js'' 4" "[changedFile ''src/latest.js'' 4]"]
    TEST_PATTERNS_compile
  by (auto simp: changedFile_def file_name_def js_or_def js_toLowerCase_def lower_char_def)

subsection \<open>The file \<^verbatim>\<open>src/a.js\<close> and its tests\<close>

lemma a_js_is_no_test_file: "svc_isTestFile TEST_PATTERNS ''src/a.js'' = Inr False"
  by code_simp

lemma a_test_js_is_test_file: "svc_isTestFile TEST_PATTERNS ''src/a.test.js'' = Inr True"
  by (rule svc_isTestFile_indicator[OF TEST_PATTERNS_compile])
     (simp add: js_toLowerCase_def lower_char_def)

lemma a_spec_js_is_test_file: "svc_isTestFile TEST_PATTERNS ''src/a.spec.js'' = Inr True"
  by (rule svc_isTestFile_indicator[OF TEST_PATTERNS_compile])
     (simp add: js_toLowerCase_def lower_char_def)

lemma a_js_test_paths:
  "svc_generateTestPaths ''src/a.js'' =
     [''src/a.test.js'', ''src/a.spec.js'', ''src/__tests__/a.js'', ''src/__tests__/a.test.js'',
      ''src/tests/a.js'', ''src/test/a.js'', ''test/a.js'', ''tests/a.js'']"
  by (simp add: svc_generateTestPaths_def Let_def)

lemma a_js_is_code_file: "svc_isCodeFile ''src/a.js''"
  by (simp add: svc_isCodeFile_def ignoredPaths_def codeExtensions_def js_endsWith_def)

subsection \<open>Coverage\<close>

text \<open>
  Claim C2 (coverage and risk lie between 0 and 100) fails for the coverage of
  \<^verbatim>\<open>identifyTests\<close>. \<^verbatim>\<open>_calculateCoverage\<close> divides the number of related test
  entries, not the number of tested source files, by the number of source files: a change
  set with \<^verbatim>\<open>src/a.js\<close> and its two co-located tests has two related entries for one
  source file, and the coverage is 200.
\<close>

theorem C2_coverage_above_100:
  "(case svc_identifyTests TEST_PATTERNS
           [changedFile ''src/a.js'' 5, changedFile ''src/a.test.js'' 3,
            changedFile ''src/a.spec.js'' 3] of
      Inl e \<Rightarrow> False
    | Inr r \<Rightarrow> coverage r = 200)"
  by (simp add: svc_identifyTests_def changedFile_def file_name_def js_or_def
      a_js_is_no_test_file a_test_js_is_test_file a_spec_js_is_test_file a_js_is_code_file
      svc_analyzeRisk_def fileRisk_def svc_findRelatedTests_def relatedTestsFor_def
      a_js_test_paths sourceEntry_def relatedEntry_def suggestedEntry_def
      svc_calculateCoverage_def js_round_def Let_def)

subsection \<open>Bounds that hold\<close>

text \<open>
  The risk score of \<^verbatim>\<open>_analyzeRisk\<close> on a non-empty list and both numbers of
  \<^verbatim>\<open>TestAnalyzer.analyzeCoverage\<close> lie between 0 and 100.
\<close>

lemma js_round_bounds: "0 \<le> x \<Longrightarrow> x \<le> 100 \<Longrightarrow> 0 \<le> js_round x \<and> js_round x \<le> 100"
  unfolding js_round_def by (simp add: floor_le_iff le_floor_iff) 

lemma js_round_nonneg: "0 \<le> x \<Longrightarrow> 0 \<le> js_round x"
  unfolding js_round_def by (simp add: le_floor_iff)

lemma svc_totalRisk_bounds:
  "changedFiles \<noteq> [] \<Longrightarrow> svc_analyzeRisk reg changedFiles = Inr risk \<Longrightarrow>
   0 \<le> totalRisk risk \<and> totalRisk risk \<le> 100"
  by (auto simp: svc_analyzeRisk_def js_round_nonneg split: sum.splits)

lemma estimatedCoverageOf_bounds:
  "0 \<le> estimatedCoverageOf n t \<and> estimatedCoverageOf n t \<le> 100"
proof (cases "0 < n")
  case False
  then show ?thesis by (simp add: estimatedCoverageOf_def)
next
  case True
  let ?x = "real (min t n) / real n * 100"
  define base where "base = js_round ?x"
  define bonus where "bonus = int (min 20 ((t - n) * 5))"
  have "real (min t n) \<le> real n" by simp
  then have "real (min t n) / real n \<le> 1" using True by (simp add: divide_le_eq)
  then have "real (min t n) / real n * 100 \<le> 1 * 100"
    by (rule mult_right_mono) simp
  then have "?x \<le> 100" by simp
  moreover have "0 \<le> ?x" by simp
  ultimately have b: "0 \<le> base \<and> base \<le> 100"
    unfolding base_def by (intro js_round_bounds)
  have est: "estimatedCoverageOf n t = (if n < t then min 95 (base + bonus) else base)"
    using True by (simp add: estimatedCoverageOf_def Let_def base_def bonus_def)
  have "0 \<le> bonus" by (simp add: bonus_def)
  with b show ?thesis unfolding est by auto
qed

lemma analyzeCoverage_bounds:
  "0 \<le> estimated (analyzeCoverage codeChanges tests) \<and>
   estimated (analyzeCoverage codeChanges tests) \<le> 100 \<and>
   0 \<le> riskScore (analyzeCoverage codeChanges tests) \<and>
   riskScore (analyzeCoverage codeChanges tests) \<le> 100"
  using estimatedCoverageOf_bounds[of "length codeChanges" "length tests"]
  by (simp add: analyzeCoverage_def Let_def)

subsection \<open>Recommendations\<close>

text \<open>
  \<^verbatim>\<open>_findRelatedTests\<close> adds a suggested entry for every source file, because the
  list of possible test paths is never empty; so every source file counts as tested in
  \<^verbatim>\<open>_generateRecommendations\<close>, and no recommendation is ever made.
\<close>

lemma svc_generateTestPaths_nonempty: "svc_generateTestPaths p \<noteq> []"
  by (simp add: svc_generateTestPaths_def Let_def)

lemma relatedTestsFor_names_source:
  "Some (sf_path s) \<in> set (map te_sourceFile (relatedTestsFor allFiles s))"
  using svc_generateTestPaths_nonempty[of "sf_path s"]
  by (cases "svc_generateTestPaths (sf_path s)")
     (simp_all add: relatedTestsFor_def Let_def suggestedEntry_def)

lemma svc_recommendations_always_empty:
  "svc_generateRecommendations srcs (svc_findRelatedTests srcs allFiles) = []"
proof -
  have "Some (sf_path s) \<in> set (map te_sourceFile (svc_findRelatedTests srcs allFiles))"
    if "s \<in> set srcs" for s
    using that relatedTestsFor_names_source[of s allFiles]
    by (auto simp: svc_findRelatedTests_def)
  then show ?thesis
    by (auto simp: svc_generateRecommendations_def filter_empty_conv)
qed

text \<open>
  The severity of a recommendation would be read from \<^verbatim>\<open>file.changes\<close>, not from the
  added and deleted lines: a file with 80 added lines and no \<^verbatim>\<open>changes\<close> property
  would be rated medium.
\<close>

lemma missingTest_severity_ignores_line_counts:
  "rec_severity (missingTest (sourceEntry TEST_PATTERNS (changedFile ''src/a.js'' 80))) = Medium"
  by (simp add: missingTest_def sourceEntry_def changedFile_def or_zero_def)

text \<open>
  Claim C3 (a source file without an existing test gets a recommendation; scenario B)
  fails. For the single changed file \<^verbatim>\<open>src/a.js\<close> with 80 added lines,
  \<^verbatim>\<open>identifyTests\<close> returns one source file, one suggested test and no recommendation.
\<close>

theorem C3_scenario_B_no_recommendation:
  "(case svc_identifyTests TEST_PATTERNS [changedFile ''src/a.js'' 80] of
      Inl e \<Rightarrow> False
    | Inr r \<Rightarrow>
        recommendations r = [] \<and>
        map te_type (identifiedTests r) = [Suggested] \<and>
        (case details r of
           None \<Rightarrow> False
         | Some d \<Rightarrow> map sf_path (sourceFiles d) = [''src/a.js'']))"
  by (simp add: svc_identifyTests_def changedFile_def file_name_def js_or_def
      a_js_is_no_test_file a_js_is_code_file
      svc_analyzeRisk_def fileRisk_def svc_findRelatedTests_def relatedTestsFor_def
      a_js_test_paths sourceEntry_def relatedEntry_def suggestedEntry_def
      svc_generateRecommendations_def Let_def)

subsection \<open>Ignored paths\<close>

text \<open>The roles are those that the two filters of the service assign.\<close>

lemma classify_by_filters:
  assumes "list_all compiles (allPatterns reg)"
  shows "(classify reg (file_name file) = Inr Test \<longleftrightarrow>
            svc_identifyExistingTests reg [file] = Inr [existingEntry reg (file_name file)]) \<and>
         (classify reg (file_name file) = Inr Source \<longleftrightarrow>
            svc_identifySourceFiles reg [file] = Inr [sourceEntry reg file])"
proof -
  obtain b where "svc_isTestFile reg (file_name file) = Inr b"
    using svc_isTestFile_total[OF assms] by blast
  then show ?thesis by (auto simp: classify_def)
qed

text \<open>
  Claim C7, as amended. A path that contains an entry of the ignore list is never
  classified as a source file. The test-file check comes first: the path is a test file
  when that check holds, and ignored otherwise. The registry is any registry whose
  patterns compile.
\<close>

theorem C7_ignored_path_is_never_source:
  assumes "list_all compiles (allPatterns reg)"
    and "list_ex (\<lambda>ignored. js_includes filename ignored) ignoredPaths"
  shows "\<exists>isTest. svc_isTestFile reg filename = Inr isTest \<and>
                  classify reg filename = Inr (if isTest then Test else Ignored)"
proof -
  obtain b where b: "svc_isTestFile reg filename = Inr b"
    using svc_isTestFile_total[OF assms(1)] by blast
  have "\<not> svc_isCodeFile filename"
    using assms(2) by (simp add: svc_isCodeFile_def)
  with b show ?thesis by (simp add: classify_def)
qed

theorem C7_ignored_path_witness:
  "list_ex (\<lambda>ignored. js_includes ''vendor/lib/util.js'' ignored) ignoredPaths \<and>
   classify TEST_PATTERNS ''vendor/lib/util.js'' = Inr Ignored \<and>
   list_ex (\<lambda>ignored. js_includes ''vendor/lib/test_helper.js'' ignored) ignoredPaths \<and>
   classify TEST_PATTERNS ''vendor/lib/test_helper.js'' = Inr Test"
proof -
  have u: "svc_isTestFile TEST_PATTERNS ''vendor/lib/util.js'' = Inr False"
    by code_simp
  have t: "svc_isTestFile TEST_PATTERNS ''vendor/lib/test_helper.js'' = Inr True"
    by (rule svc_isTestFile_indicator[OF TEST_PATTERNS_compile])
       (simp add: js_toLowerCase_def lower_char_def)
  have i1: "list_ex (\<lambda>ignored. js_includes ''vendor/lib/util.js'' ignored) ignoredPaths"
    by (simp add: ignoredPaths_def)
  have i2: "list_ex (\<lambda>ignored. js_includes ''vendor/lib/test_helper.js'' ignored) ignoredPaths"
    by (simp add: ignoredPaths_def)
  have "classify TEST_PATTERNS ''vendor/lib/util.js'' = Inr Ignored"
    using C7_ignored_path_is_never_source[OF TEST_PATTERNS_compile i1] u by auto
  moreover have "classify TEST_PATTERNS ''vendor/lib/test_helper.js'' = Inr Test"
    using C7_ignored_path_is_never_source[OF TEST_PATTERNS_compile i2] t by auto
  ultimately show ?thesis using i1 i2 by blast
qed

text \<open>
  Claim C7 as stated says that \<^verbatim>\<open>vendor/lib/test_helper.js\<close> is ignored and never a
  test file. The path contains \<^verbatim>\<open>test\<close>, so it is a test file, and
  \<^verbatim>\<open>_identifyExistingTests\<close> emits it.
\<close>

theorem C7_vendor_test_helper_counterexample:
  "classify TEST_PATTERNS ''vendor/lib/test_helper.js'' = Inr Test \<and>
   classify TEST_PATTERNS ''vendor/lib/test_helper.js'' \<noteq> Inr Ignored \<and>
   svc_identifyExistingTests TEST_PATTERNS [changedFile ''vendor/lib/test_helper.js'' 1] =
     Inr [existingEntry TEST_PATTERNS ''vendor/lib/test_helper.js'']"
proof -
  have "svc_isTestFile TEST_PATTERNS ''vendor/lib/test_helper.js'' = Inr True"
    by (rule svc_isTestFile_indicator[OF TEST_PATTERNS_compile])
       (simp add: js_toLowerCase_def lower_char_def)
  then show ?thesis
    by (simp add: classify_def changedFile_def file_name_def js_or_def)
qed

subsection \<open>Glob compilation\<close>

text \<open>What the three compilers make of the registry pattern \<^verbatim>\<open>**/*.test.js\<close>.\<close>

lemma svc_globToRegex_source_example:
  "svc_globToRegex_source ''**/*.test.js'' =
     [CHR 0x5C] @ ''.[^/]*/[^/]*'' @ [CHR 0x5C] @ ''.test'' @ [CHR 0x5C] @ ''.js''"
  by code_simp

lemma globToRegex_source_example:
  "globToRegex_source ''**/*.test.js'' =
     [CHR 0x5C] @ ''.[^/]*/[^/]*'' @ [CHR 0x5C] @ ''.test'' @ [CHR 0x5C] @ ''.js''"
  by code_simp

lemma globToRegex_first_source_example:
  "globToRegex_first_source ''**/*.test.js'' =
     ''.[^/]*/[^/]*'' @ [CHR 0x5C] @ ''.test'' @ [CHR 0x5C] @ ''.js''"
  by code_simp

text \<open>
  Claim C5 (the compiled matcher accepts a path exactly according to glob semantics)
  fails. Each compiler replaces \<^verbatim>\<open>**\<close> by \<^verbatim>\<open>.*\<close> and then replaces every
  \<^verbatim>\<open>*\<close>, the one it has just written included, by \<^verbatim>\<open>[^/]*\<close>; two of the three
  escape the dot of \<^verbatim>\<open>.*\<close> as well. The pattern \<^verbatim>\<open>**/*.test.js\<close> matches
  \<^verbatim>\<open>src/a.test.js\<close> and \<^verbatim>\<open>lib/util/a.test.js\<close> in glob semantics; the matcher of
  \<^verbatim>\<open>TestAnalysisService\<close> and the matcher in force in \<^verbatim>\<open>TestAnalyzer\<close> reject the
  first path, and the first definition in \<^verbatim>\<open>TestAnalyzer\<close> rejects the second.
\<close>

theorem C5_compiled_globs_reject_test_files:
  "spec_glob_matches ''**/*.test.js'' ''src/a.test.js'' \<and>
   (case svc_globToRegex ''**/*.test.js'' of
      Inl e \<Rightarrow> False | Inr r \<Rightarrow> \<not> regex_test r ''src/a.test.js'') \<and>
   (case globToRegex ''**/*.test.js'' of
      Inl e \<Rightarrow> False | Inr r \<Rightarrow> \<not> regex_test r ''src/a.test.js'') \<and>
   spec_glob_matches ''**/*.test.js'' ''lib/util/a.test.js'' \<and>
   (case globToRegex_first ''**/*.test.js'' of
      Inl e \<Rightarrow> False | Inr r \<Rightarrow> \<not> regex_test r ''lib/util/a.test.js'')"
  by code_simp

subsection \<open>Candidate test paths\<close>

text \<open>Splitting and joining are inverse to each other on separator-free segments.\<close>

lemma js_split_nonempty: "js_split sep s \<noteq> []"
  by (induction s) (auto split: list.splits)

lemma js_split_no_separator: "sep \<notin> set s \<Longrightarrow> js_split sep s = [s]"
  by (induction s) auto

lemma js_split_at_separator:
  "sep \<notin> set a \<Longrightarrow> js_split sep (a @ sep # b) = a # js_split sep b"
  by (induction a) auto

lemma js_split_last_separator:
  "sep \<notin> set b \<Longrightarrow> js_split sep (a @ sep # b) = js_split sep a @ [b]"
proof (induction a)
  case Nil
  then show ?case by (simp add: js_split_no_separator)
next
  case (Cons c a)
  then show ?case
    using js_split_nonempty[of sep a]
    by (cases "js_split sep a") auto
qed

lemma js_join_split: "js_join [sep] (js_split sep s) = s"
proof (induction s)
  case Nil
  show ?case by simp
next
  case (Cons c s)
  show ?case
  proof (cases "js_split sep s")
    case Nil
    then show ?thesis using js_split_nonempty[of sep s] by simp
  next
    case (Cons w ws)
    with Cons.IH show ?thesis by (cases ws) auto
  qed
qed

lemma js_join_Cons: "xs \<noteq> [] \<Longrightarrow> js_join sep (x # xs) = x @ sep @ js_join sep xs"
  by (cases xs) auto

lemma js_split_join:
  "xs \<noteq> [] \<Longrightarrow> list_all (\<lambda>x. sep \<notin> set x) xs \<Longrightarrow> js_split sep (js_join [sep] xs) = xs"
proof (induction xs)
  case Nil
  then show ?case by simp
next
  case (Cons x xs)
  show ?case
  proof (cases xs)
    case Nil
    with Cons.prems show ?thesis by (simp add: js_split_no_separator)
  next
    case (Cons y ys)
    with Cons.prems Cons.IH show ?thesis
      by (simp add: js_split_at_separator)
  qed
qed

lemma js_join_snoc: "xs \<noteq> [] \<Longrightarrow> js_join sep (xs @ [x]) = js_join sep xs @ sep @ x"
  by (induction sep xs rule: js_join.induct) auto

lemma js_indexOf_takeWhile:
  "js_indexOf xs x =
     (if x \<in> set xs then Some (length (takeWhile (\<lambda>y. y \<noteq> x) xs)) else None)"
  by (induction xs) auto

lemma js_indexOf_leftmost:
  "x \<notin> set pre \<Longrightarrow> js_indexOf (pre @ x # post) x = Some (length pre)"
  by (induction pre) auto

lemma js_indexOf_absent: "x \<notin> set xs \<Longrightarrow> js_indexOf xs x = None"
  by (induction xs) auto


lemma generateTestPaths_of_components:
  assumes "list_all (\<lambda>d. CHR ''/'' \<notin> set d) dirs"
    and "CHR ''/'' \<notin> set base" and "CHR ''/'' \<notin> set ext" and "CHR ''.'' \<notin> set ext"
  shows "svc_generateTestPaths (js_join ''/'' (dirs @ [base @ ''.'' @ ext])) =
           [js_join ''/'' dirs @ ''/'' @ base @ ''.test.'' @ ext,
            js_join ''/'' dirs @ ''/'' @ base @ ''.spec.'' @ ext,
            js_join ''/'' dirs @ ''/__tests__/'' @ base @ ''.'' @ ext,
            js_join ''/'' dirs @ ''/__tests__/'' @ base @ ''.test.'' @ ext,
            js_join ''/'' dirs @ ''/tests/'' @ base @ ''.'' @ ext,
            js_join ''/'' dirs @ ''/test/'' @ base @ ''.'' @ ext]
           @ (case js_indexOf (dirs @ [base @ ''.'' @ ext]) ''src'' of
                None \<Rightarrow> []
              | Some srcIndex \<Rightarrow>
                  [js_join ''/'' ((dirs @ [base @ ''.'' @ ext])[srcIndex := ''test'']),
                   js_join ''/'' ((dirs @ [base @ ''.'' @ ext])[srcIndex := ''tests''])])"
proof -
  let ?file = "base @ ''.'' @ ext"
  have "list_all (\<lambda>d. CHR ''/'' \<notin> set d) (dirs @ [?file])"
    using assms by simp
  then have parts: "js_split CHR ''/'' (js_join ''/'' (dirs @ [?file])) = dirs @ [?file]"
    using js_split_join[of "dirs @ [?file]" "CHR ''/''"] by simp
  have dots: "js_split CHR ''.'' (base @ CHR ''.'' # ext) = js_split CHR ''.'' base @ [ext]"
    using js_split_last_separator[OF assms(4), of base] by simp
  have name: "js_join ''.'' (js_split CHR ''.'' base) = base"
    using js_join_split[of "CHR ''.''" base] by simp
  show ?thesis
    unfolding svc_generateTestPaths_def Let_def parts
    by (simp add: dots name)
qed

text \<open>
  A source path with an extension consists of directory segments \<open>dirs\<close> and a last
  segment \<open>base.ext\<close>, where \<open>ext\<close> has no dot. For such a path
  \<^verbatim>\<open>_generateTestPaths\<close> returns, in this order, the \<^verbatim>\<open>.test\<close> and
  \<^verbatim>\<open>.spec\<close> files, the two files under \<^verbatim>\<open>__tests__\<close>, the file under
  \<^verbatim>\<open>tests\<close>, the file under \<^verbatim>\<open>test\<close>, each below the joined directory
  segments and a slash, and, when a directory segment equals \<^verbatim>\<open>src\<close>, the two paths
  in which the leftmost such segment is replaced by \<^verbatim>\<open>test\<close> and by \<^verbatim>\<open>tests\<close>.
  With at least one directory segment the first six are the paths in and below the
  directory of the source file.
\<close>

lemma generateTestPaths_priority_order:
  assumes "list_all (\<lambda>d. CHR ''/'' \<notin> set d) dirs"
    and "CHR ''/'' \<notin> set base" and "CHR ''/'' \<notin> set ext" and "CHR ''.'' \<notin> set ext"
  shows "(let dir = js_join ''/'' dirs;
              filename = base @ ''.'' @ ext;
              conventional =
                [dir @ ''/'' @ base @ ''.test.'' @ ext,
                 dir @ ''/'' @ base @ ''.spec.'' @ ext,
                 dir @ ''/__tests__/'' @ filename,
                 dir @ ''/__tests__/'' @ base @ ''.test.'' @ ext,
                 dir @ ''/tests/'' @ filename,
                 dir @ ''/test/'' @ filename]
          in (''src'' \<notin> set dirs \<longrightarrow>
                svc_generateTestPaths (js_join ''/'' (dirs @ [filename])) = conventional) \<and>
             (dirs = pre @ ''src'' # post \<and> ''src'' \<notin> set pre \<longrightarrow>
                svc_generateTestPaths (js_join ''/'' (dirs @ [filename])) =
                  conventional @
                  [js_join ''/'' (pre @ ''test'' # post @ [filename]),
                   js_join ''/'' (pre @ ''tests'' # post @ [filename])]))"
proof -
  let ?file = "base @ ''.'' @ ext"
  have nosrc: "?file \<noteq> ''src''"
  proof
    assume "?file = ''src''"
    then have "set ?file = set ''src''" by (rule arg_cong)
    moreover have "CHR ''.'' \<in> set ?file" by simp
    ultimately have "CHR ''.'' \<in> set ''src''" by (rule subst)
    then show False by simp
  qed
  have absent: "js_indexOf (dirs @ [?file]) ''src'' = None" if "''src'' \<notin> set dirs"
    using that nosrc by (intro js_indexOf_absent) auto
  have present: "js_indexOf (dirs @ [?file]) ''src'' = Some (length pre) \<and>
                 (dirs @ [?file])[length pre := t] = pre @ t # post @ [?file]"
    if "dirs = pre @ ''src'' # post" "''src'' \<notin> set pre" for t
    using that js_indexOf_leftmost[of "''src''" pre "post @ [?file]"]
    by (simp add: list_update_append)
  show ?thesis
    unfolding Let_def generateTestPaths_of_components[OF assms]
    using absent present by auto
qed

text \<open>
  A path with two \<^verbatim>\<open>src\<close> segments and a dot in its base name, and a path without
  a \<^verbatim>\<open>src\<close> segment.
\<close>

lemma generateTestPaths_priority_order_example:
  "svc_generateTestPaths ''app/src/lib/src/c.d.js'' =
     [''app/src/lib/src/c.d.test.js'', ''app/src/lib/src/c.d.spec.js'',
      ''app/src/lib/src/__tests__/c.d.js'', ''app/src/lib/src/__tests__/c.d.test.js'',
      ''app/src/lib/src/tests/c.d.js'', ''app/src/lib/src/test/c.d.js'',
      ''app/test/lib/src/c.d.js'', ''app/tests/lib/src/c.d.js''] \<and>
   svc_generateTestPaths ''lib/a.js'' =
     [''lib/a.test.js'', ''lib/a.spec.js'', ''lib/__tests__/a.js'', ''lib/__tests__/a.test.js'',
      ''lib/tests/a.js'', ''lib/test/a.js'']"
proof -
  have "svc_generateTestPaths (js_join ''/'' ([''app'', ''src'', ''lib'', ''src''] @ [''c.d'' @ ''.'' @ ''js''])) =
     [js_join ''/'' [''app'', ''src'', ''lib'', ''src''] @ ''/'' @ ''c.d'' @ ''.test.'' @ ''js'',
      js_join ''/'' [''app'', ''src'', ''lib'', ''src''] @ ''/'' @ ''c.d'' @ ''.spec.'' @ ''js'',
      js_join ''/'' [''app'', ''src'', ''lib'', ''src''] @ ''/__tests__/'' @ (''c.d'' @ ''.'' @ ''js''),
      js_join ''/'' [''app'', ''src'', ''lib'', ''src''] @ ''/__tests__/'' @ ''c.d'' @ ''.test.'' @ ''js'',
      js_join ''/'' [''app'', ''src'', ''lib'', ''src''] @ ''/tests/'' @ (''c.d'' @ ''.'' @ ''js''),
      js_join ''/'' [''app'', ''src'', ''lib'', ''src''] @ ''/test/'' @ (''c.d'' @ ''.'' @ ''js'')] @
     [js_join ''/'' ([''app''] @ ''test'' # [''lib'', ''src''] @ [''c.d'' @ ''.'' @ ''js'']),
      js_join ''/'' ([''app''] @ ''tests'' # [''lib'', ''src''] @ [''c.d'' @ ''.'' @ ''js''])]"
    using generateTestPaths_priority_order
            [of "[''app'', ''src'', ''lib'', ''src'']" "''c.d''" "''js''" "[''app'']" "[''lib'', ''src'']"]
    by (simp add: Let_def)
  moreover have "svc_generateTestPaths (js_join ''/'' ([''lib''] @ [''a'' @ ''.'' @ ''js''])) =
     [js_join ''/'' [''lib''] @ ''/'' @ ''a'' @ ''.test.'' @ ''js'',
      js_join ''/'' [''lib''] @ ''/'' @ ''a'' @ ''.spec.'' @ ''js'',
      js_join ''/'' [''lib''] @ ''/__tests__/'' @ (''a'' @ ''.'' @ ''js''),
      js_join ''/'' [''lib''] @ ''/__tests__/'' @ ''a'' @ ''.test.'' @ ''js'',
      js_join ''/'' [''lib''] @ ''/tests/'' @ (''a'' @ ''.'' @ ''js''),
      js_join ''/'' [''lib''] @ ''/test/'' @ (''a'' @ ''.'' @ ''js'')]"
    using generateTestPaths_priority_order [of "[''lib'']" "''a''" "''js''"]
    by (simp add: Let_def)
  ultimately show ?thesis by simp
qed

text \<open>
  Every path whose last segment contains a dot is of the form that the lemma covers.
\<close>

lemma js_split_segment_free: "s \<in> set (js_split sep p) \<Longrightarrow> sep \<notin> set s"
proof (induction p arbitrary: s)
  case Nil
  then show ?case by simp
next
  case (Cons c p)
  show ?case
  proof (cases "c = sep")
    case True
    with Cons show ?thesis by auto
  next
    case False
    obtain w ws where w: "js_split sep p = w # ws"
      using js_split_nonempty[of sep p] by (cases "js_split sep p") auto
    with Cons False show ?thesis by auto
  qed
qed

lemma js_split_separator_present: "sep \<in> set p \<Longrightarrow> butlast (js_split sep p) \<noteq> []"
proof (induction p)
  case Nil
  then show ?case by simp
next
  case (Cons c p)
  obtain w ws where w: "js_split sep p = w # ws"
    using js_split_nonempty[of sep p] by (cases "js_split sep p") auto
  show ?case
  proof (cases "c = sep")
    case True
    then show ?thesis by (simp add: w)
  next
    case False
    with Cons w show ?thesis by auto
  qed
qed

lemma path_with_extension_decomposes:
  assumes "CHR ''.'' \<in> set (last (js_split CHR ''/'' p))"
  shows "\<exists>dirs base ext.
           list_all (\<lambda>d. CHR ''/'' \<notin> set d) dirs \<and> CHR ''/'' \<notin> set base \<and>
           CHR ''/'' \<notin> set ext \<and> CHR ''.'' \<notin> set ext \<and>
           p = js_join ''/'' (dirs @ [base @ ''.'' @ ext])"
proof -
  let ?parts = "js_split CHR ''/'' p"
  let ?file = "last ?parts"
  let ?ds = "js_split CHR ''.'' ?file"
  have parts: "?parts = butlast ?parts @ [?file]"
    using js_split_nonempty[of "CHR ''/''" p] by simp
  have p: "p = js_join ''/'' (butlast ?parts @ [?file])"
    using js_join_split[of "CHR ''/''" p] parts by simp
  have free: "list_all (\<lambda>d. CHR ''/'' \<notin> set d) ?parts"
    using js_split_segment_free[of _ "CHR ''/''" p] by (simp add: list_all_iff)
  then have dirs: "list_all (\<lambda>d. CHR ''/'' \<notin> set d) (butlast ?parts)"
    by (auto simp: list_all_iff dest: in_set_butlastD)
  have "?file \<in> set ?parts"
    using js_split_nonempty[of "CHR ''/''" p] by simp
  then have file_free: "CHR ''/'' \<notin> set ?file"
    using free by (simp add: list_all_iff)
  have ds: "?ds = butlast ?ds @ [last ?ds]"
    using js_split_nonempty[of "CHR ''.''" ?file] by simp
  have "butlast ?ds \<noteq> []"
    using assms by (rule js_split_separator_present)
  then have "js_join ''.'' (butlast ?ds @ [last ?ds]) = js_join ''.'' (butlast ?ds) @ ''.'' @ last ?ds"
    by (rule js_join_snoc)
  with ds have "js_join ''.'' ?ds = js_join ''.'' (butlast ?ds) @ ''.'' @ last ?ds"
    by simp
  then have file_eq: "?file = js_join ''.'' (butlast ?ds) @ ''.'' @ last ?ds"
    using js_join_split[of "CHR ''.''" ?file] by simp
  have "last ?ds \<in> set ?ds"
    using js_split_nonempty[of "CHR ''.''" ?file] by simp
  then have ext_free: "CHR ''.'' \<notin> set (last ?ds)"
    by (rule js_split_segment_free)
  have "set (js_join ''.'' (butlast ?ds)) \<subseteq> set ?file" and "set (last ?ds) \<subseteq> set ?file"
    using arg_cong[OF file_eq, of set] by auto
  with file_free have "CHR ''/'' \<notin> set (js_join ''.'' (butlast ?ds))" and "CHR ''/'' \<notin> set (last ?ds)"
    by auto
  with dirs ext_free p file_eq show ?thesis
    by (metis (no_types, lifting))
qed

text \<open>
  Claim C9 (the candidates start with the co-located \<^verbatim>\<open>.test\<close> and \<^verbatim>\<open>.spec\<close>
  files, then the files in the test subdirectories of the same directory) fails for a
  source file at the top level of the repository. The directory of \<^verbatim>\<open>a.js\<close> is the
  empty string, and every candidate is built as the directory, a slash and a name: the
  candidates start with a slash. The co-located test \<^verbatim>\<open>a.test.js\<close> is not among them,
  so when it is changed together with \<^verbatim>\<open>a.js\<close> it is not related to it: the only
  entry for \<^verbatim>\<open>a.js\<close> is the suggestion \<^verbatim>\<open>/a.test.js\<close>, and the coverage is 0.
\<close>

theorem C9_top_level_file_candidates:
  "svc_generateTestPaths ''a.js'' =
     [''/a.test.js'', ''/a.spec.js'', ''/__tests__/a.js'', ''/__tests__/a.test.js'',
      ''/tests/a.js'', ''/test/a.js''] \<and>
   ''a.test.js'' \<notin> set (svc_generateTestPaths ''a.js'') \<and>
   (case svc_identifyTests TEST_PATTERNS [changedFile ''a.js'' 5, changedFile ''a.test.js'' 3] of
      Inl e \<Rightarrow> False
    | Inr r \<Rightarrow>
        coverage r = 0 \<and>
        map (\<lambda>t. (te_path t, te_type t)) (identifiedTests r) =
          [(''a.test.js'', Existing), (''/a.test.js'', Suggested)])"
proof -
  have p: "svc_generateTestPaths ''a.js'' =
     [''/a.test.js'', ''/a.spec.js'', ''/__tests__/a.js'', ''/__tests__/a.test.js'',
      ''/tests/a.js'', ''/test/a.js'']"
    by (simp add: svc_generateTestPaths_def Let_def)
  have s: "svc_isTestFile TEST_PATTERNS ''a.js'' = Inr False" by code_simp
  have t: "svc_isTestFile TEST_PATTERNS ''a.test.js'' = Inr True"
    by (rule svc_isTestFile_indicator[OF TEST_PATTERNS_compile])
       (simp add: js_toLowerCase_def lower_char_def)
  have c: "svc_isCodeFile ''a.js''"
    by (simp add: svc_isCodeFile_def ignoredPaths_def codeExtensions_def js_endsWith_def)
  have r: "(case svc_identifyTests TEST_PATTERNS
                  [changedFile ''a.js'' 5, changedFile ''a.test.js'' 3] of
      Inl e \<Rightarrow> False
    | Inr r \<Rightarrow>
        coverage r = 0 \<and>
        map (\<lambda>t. (te_path t, te_type t)) (identifiedTests r) =
          [(''a.test.js'', Existing), (''/a.test.js'', Suggested)])"
    by (simp add: svc_identifyTests_def changedFile_def file_name_def js_or_def
        s t c p svc_analyzeRisk_def fileRisk_def svc_findRelatedTests_def
        relatedTestsFor_def sourceEntry_def relatedEntry_def suggestedEntry_def
        existingEntry_def svc_calculateCoverage_def js_round_def Let_def)
  have n: "''a.test.js'' \<notin> set (svc_generateTestPaths ''a.js'')"
    unfolding p by simp
  from p n r show ?thesis by blast
qed

subsection \<open>The fallback detection\<close>

text \<open>The strict pass of \<^verbatim>\<open>findExistingTests\<close> always returns: its patterns compile.\<close>

lemma collect_total:
  "list_all (\<lambda>x. \<exists>ys. f x = Inr ys) xs \<Longrightarrow> \<exists>zs. collect f xs = Inr zs"
  by (induction xs) auto

lemma loadTestPatterns_compile:
  "list_all (\<lambda>(language, config). list_all compiles_anchored (patterns config)) loadTestPatterns"
  by code_simp

lemma testsOfPattern_total:
  "compiles_anchored pattern \<Longrightarrow> \<exists>ts. testsOfPattern files language config pattern = Inr ts"
  by (auto simp: compiles_anchored_def testsOfPattern_def split: sum.splits)

lemma testsOfLanguage_total: "\<exists>ts. testsOfLanguage files language = Inr ts"
proof (cases "map_of loadTestPatterns language")
  case None
  then show ?thesis by (simp add: testsOfLanguage_def)
next
  case (Some config)
  then have "(language, config) \<in> set loadTestPatterns" by (rule map_of_SomeD)
  then have "list_all compiles_anchored (patterns config)"
    using loadTestPatterns_compile by (auto simp: list_all_iff)
  then have "list_all (\<lambda>p. \<exists>ts. testsOfPattern files language config p = Inr ts) (patterns config)"
    using testsOfPattern_total by (auto simp: list_all_iff)
  then show ?thesis
    using Some collect_total[of "testsOfPattern files language config" "patterns config"]
    by (simp add: testsOfLanguage_def)
qed

lemma strictPass_total: "\<exists>ts. strictPass files = Inr ts"
  unfolding strictPass_def
  by (rule collect_total) (simp add: list_all_iff testsOfLanguage_total)

text \<open>
  Claim C6, as amended. In \<^verbatim>\<open>TestAnalyzer.findExistingTests\<close> the substring-based
  alternative detection classifies paths only when the strict pattern pass has found no
  test file in the whole batch; when the strict pass has found one, the result is that of
  the strict pass alone.
\<close>

theorem C6_fallback_only_after_empty_strict_pass:
  "\<exists>strict. strictPass files = Inr strict \<and>
            findExistingTests files =
              Inr (if strict = [] then findTestsAlternativeMethod files else strict)"
proof -
  obtain strict where "strictPass files = Inr strict"
    using strictPass_total by blast
  then show ?thesis by (simp add: findExistingTests_def)
qed

text \<open>
  Claim C6 as stated covers \<^verbatim>\<open>TestAnalysisService._isTestFile\<close> too, which decides
  file by file. In a batch in which a pattern matches \<^verbatim>\<open>a.b/c.test.js\<close>, the file
  \<^verbatim>\<open>src/latest.js\<close>, which no pattern matches, is still classified as a test file
  by the substring check.
\<close>

theorem C6_per_file_fallback_counterexample:
  "anyPatternMatches (allPatterns TEST_PATTERNS) ''a.b/c.test.js'' = Inr True \<and>
   anyPatternMatches (allPatterns TEST_PATTERNS) ''src/latest.js'' = Inr False \<and>
   svc_identifyExistingTests TEST_PATTERNS
       [changedFile ''a.b/c.test.js'' 2, changedFile ''src/latest.js'' 4] =
     Inr [existingEntry TEST_PATTERNS ''a.b/c.test.js'',
          existingEntry TEST_PATTERNS ''src/latest.js'']"
proof -
  have strict: "anyPatternMatches (allPatterns TEST_PATTERNS) ''a.b/c.test.js'' = Inr True"
    by code_simp
  have none: "anyPatternMatches (allPatterns TEST_PATTERNS) ''src/latest.js'' = Inr False"
    by code_simp
  have t1: "svc_isTestFile TEST_PATTERNS ''a.b/c.test.js'' = Inr True"
    by (simp add: svc_isTestFile_def strict)
  have t2: "svc_isTestFile TEST_PATTERNS ''src/latest.js'' = Inr True"
    by (rule svc_isTestFile_indicator[OF TEST_PATTERNS_compile])
       (simp add: js_toLowerCase_def lower_char_def)
  show ?thesis
    using strict none t1 t2 by (simp add: changedFile_def file_name_def js_or_def)
qed

subsection \<open>Removal of duplicates\<close>

text \<open>
  Both \<^verbatim>\<open>removeDuplicateTests\<close> and the index filter of the second
  \<^verbatim>\<open>identifyRelevantTests\<close> keep the first entry of every file name.
\<close>

lemma keepFirst_keys:
  "set (map key (keepFirst key seen xs)) = set (map key xs) - seen"
  by (induction xs arbitrary: seen) auto

lemma keepFirst_distinct: "distinct (map key (keepFirst key seen xs))"
proof (induction xs arbitrary: seen)
  case Nil
  show ?case by simp
next
  case (Cons x xs)
  have "key x \<notin> set (map key (keepFirst key (insert (key x) seen) xs))"
    by (simp only: keepFirst_keys) simp
  with Cons.IH show ?case by simp
qed

lemma keepFirst_find:
  "find (\<lambda>t. key t = n) (keepFirst key seen xs) =
     (if n \<in> seen then None else find (\<lambda>t. key t = n) xs)"
proof (induction xs arbitrary: seen)
  case Nil
  show ?case by simp
next
  case (Cons x xs)
  show ?case by (auto simp: Cons.IH)
qed

lemma removeDuplicateTests_seen_keepFirst:
  "removeDuplicateTests_seen seen tests = keepFirst rf_fileName (set seen) tests"
  by (induction tests arbitrary: seen) auto

lemma removeDuplicateTests_keepFirst:
  "removeDuplicateTests tests = keepFirst rf_fileName {} tests"
  by (simp add: removeDuplicateTests_def removeDuplicateTests_seen_keepFirst)

lemma js_findIndex_at_length:
  "js_findIndex P (pre @ x # xs) = Some (length pre) \<longleftrightarrow> (\<forall>u \<in> set pre. \<not> P u) \<and> P x"
  by (induction pre) auto

lemma uniqueTests_suffix:
  "map snd (filter (\<lambda>(index, test).
              js_findIndex (\<lambda>t. rt_fileName t = rt_fileName test) (pre @ xs) = Some index)
            (enumerate (length pre) xs)) =
   keepFirst rt_fileName (set (map rt_fileName pre)) xs"
proof (induction xs arbitrary: pre)
  case Nil
  show ?case by simp
next
  case (Cons x xs)
  have first: "js_findIndex (\<lambda>t. rt_fileName t = rt_fileName x) (pre @ x # xs) = Some (length pre)
               \<longleftrightarrow> rt_fileName x \<notin> set (map rt_fileName pre)"
    unfolding js_findIndex_at_length by (auto simp: image_iff)
  have rest: "map snd (filter (\<lambda>(index, test).
              js_findIndex (\<lambda>t. rt_fileName t = rt_fileName test) (pre @ x # xs) = Some index)
            (enumerate (Suc (length pre)) xs)) =
        keepFirst rt_fileName (insert (rt_fileName x) (set (map rt_fileName pre))) xs"
    using Cons.IH[of "pre @ [x]"] by simp
  show ?case
  proof (cases "rt_fileName x \<in> set (map rt_fileName pre)")
    case True
    then have "insert (rt_fileName x) (set (map rt_fileName pre)) = set (map rt_fileName pre)"
      by auto
    with True first rest show ?thesis by simp
  next
    case False
    with first rest show ?thesis by simp
  qed
qed

lemma uniqueTests_keepFirst: "uniqueTests xs = keepFirst rt_fileName {} xs"
  using uniqueTests_suffix[of "[]" xs] by (simp add: uniqueTests_def)

lemma find_unique_key:
  assumes "distinct (map key xs)" and "mset ys = mset xs"
  shows "find (\<lambda>t. key t = n) ys = find (\<lambda>t. key t = n) xs"
proof -
  have sets: "set ys = set xs" using assms(2) by (rule mset_eq_setD)
  have inj: "inj_on key (set xs)" using assms(1) by (simp add: distinct_map)
  show ?thesis
  proof (cases "find (\<lambda>t. key t = n) xs")
    case None
    then have "find (\<lambda>t. key t = n) ys = None"
      using sets by (simp add: find_None_iff)
    with None show ?thesis by simp
  next
    case (Some x)
    then have x: "x \<in> set xs" "key x = n"
      by (auto simp: find_Some_iff)
    obtain y where y: "find (\<lambda>t. key t = n) ys = Some y"
      using x sets by (cases "find (\<lambda>t. key t = n) ys") (auto simp: find_None_iff)
    then have "y \<in> set xs" "key y = n"
      using sets by (auto simp: find_Some_iff)
    with x inj have "y = x" by (auto dest: inj_onD)
    with y Some show ?thesis by simp
  qed
qed

lemma distinct_keys_sort_key:
  "distinct (map key (sort_key f xs)) = distinct (map key xs)"
proof -
  have "mset (map key (sort_key f xs)) = mset (map key xs)" by simp
  then show ?thesis by (rule mset_eq_imp_distinct_iff)
qed

text \<open>
  Claim C8, as amended. In the result of \<^verbatim>\<open>TestAnalyzer.identifyRelevantTests\<close> no
  two candidates have the same test file name; the entry kept for a file name is the
  first candidate generated for it, whatever its confidence; and the result is sorted by
  confidence, descending. The first definition has distinct file names as well, and its
  \<^verbatim>\<open>removeDuplicateTests\<close> keeps the first candidate of every file name.
\<close>

theorem C8_first_candidate_of_a_test_is_kept:
  "distinct (map rt_fileName (identifyRelevantTests codeChanges tests)) \<and>
   find (\<lambda>t. rt_fileName t = name) (identifyRelevantTests codeChanges tests) =
     find (\<lambda>t. rt_fileName t = name) (relevantTests codeChanges tests) \<and>
   sorted (map (\<lambda>t. - int (rt_confidence t)) (identifyRelevantTests codeChanges tests)) \<and>
   distinct (map rf_fileName (identifyRelevantTests_first maxTestsToRun codeChanges tests)) \<and>
   find (\<lambda>t. rf_fileName t = name) (removeDuplicateTests candidates) =
     find (\<lambda>t. rf_fileName t = name) candidates"
proof -
  let ?kept = "uniqueTests (relevantTests codeChanges tests)"
  have d: "distinct (map rt_fileName ?kept)"
    by (simp add: uniqueTests_keepFirst keepFirst_distinct)
  have 1: "distinct (map rt_fileName (identifyRelevantTests codeChanges tests))"
    using d by (simp add: identifyRelevantTests_def distinct_keys_sort_key)
  have "find (\<lambda>t. rt_fileName t = name) (identifyRelevantTests codeChanges tests) =
        find (\<lambda>t. rt_fileName t = name) ?kept"
    unfolding identifyRelevantTests_def
    by (rule find_unique_key[OF d]) simp
  then have 2: "find (\<lambda>t. rt_fileName t = name) (identifyRelevantTests codeChanges tests) =
     find (\<lambda>t. rt_fileName t = name) (relevantTests codeChanges tests)"
    by (simp add: uniqueTests_keepFirst keepFirst_find)
  have 3: "sorted (map (\<lambda>t. - int (rt_confidence t)) (identifyRelevantTests codeChanges tests))"
    unfolding identifyRelevantTests_def by (rule sorted_sort_key)
  have "distinct (map rf_fileName
          (sort_key (\<lambda>t. - int (rf_confidence t))
             (removeDuplicateTests (relevantTests_first codeChanges tests))))"
    by (simp add: distinct_keys_sort_key removeDuplicateTests_keepFirst keepFirst_distinct)
  then have 4: "distinct (map rf_fileName (identifyRelevantTests_first maxTestsToRun codeChanges tests))"
    unfolding identifyRelevantTests_first_def
    by (simp add: take_map[symmetric])
  have 5: "find (\<lambda>t. rf_fileName t = name) (removeDuplicateTests candidates) =
     find (\<lambda>t. rf_fileName t = name) candidates"
    by (simp add: removeDuplicateTests_keepFirst keepFirst_find)
  show ?thesis using 1 2 3 4 5 by blast
qed

text \<open>
  Claim C8 as stated says that the entry of maximum confidence is kept. For the changes
  \<^verbatim>\<open>lib/b.js\<close> and \<^verbatim>\<open>lib/a.js\<close> and the test \<^verbatim>\<open>lib/a.test.js\<close> the candidates
  have confidence 70 and 90, and the one kept has 70.
\<close>

theorem C8_first_kept_not_best_counterexample:
  "map (\<lambda>t. (rt_fileName t, rt_confidence t))
     (relevantTests [changeOf ''lib/b.js'', changeOf ''lib/a.js'']
                    [repoTest ''lib/a.test.js'' ''javascript'']) =
     [(''lib/a.test.js'', 70), (''lib/a.test.js'', 90)] \<and>
   map (\<lambda>t. (rt_fileName t, rt_confidence t))
     (identifyRelevantTests [changeOf ''lib/b.js'', changeOf ''lib/a.js'']
                            [repoTest ''lib/a.test.js'' ''javascript'']) =
     [(''lib/a.test.js'', 70)]"
  by code_simp

text \<open>
  \<^verbatim>\<open>TestAnalysisService.identifyTests\<close> removes no duplicates at all: two source
  files that share a candidate path both get a related entry for it.
\<close>

lemma svc_identifiedTests_keep_duplicates:
  "(case svc_identifyTests TEST_PATTERNS
           [changedFile ''x/src/a.js'' 5, changedFile ''x/a.js'' 5,
            changedFile ''x/test/a.js'' 1] of
      Inl e \<Rightarrow> False
    | Inr r \<Rightarrow>
        map (\<lambda>t. (te_path t, te_type t)) (identifiedTests r) =
          [(''x/test/a.js'', Existing), (''x/test/a.js'', Related),
           (''x/src/a.test.js'', Suggested), (''x/test/a.js'', Related),
           (''x/a.test.js'', Suggested)])"
proof -
  have s1: "svc_isTestFile TEST_PATTERNS ''x/src/a.js'' = Inr False" by code_simp
  have s2: "svc_isTestFile TEST_PATTERNS ''x/a.js'' = Inr False" by code_simp
  have t: "svc_isTestFile TEST_PATTERNS ''x/test/a.js'' = Inr True"
    by (rule svc_isTestFile_indicator[OF TEST_PATTERNS_compile])
       (simp add: js_toLowerCase_def lower_char_def)
  have c1: "svc_isCodeFile ''x/src/a.js''"
    by (simp add: svc_isCodeFile_def ignoredPaths_def codeExtensions_def js_endsWith_def)
  have c2: "svc_isCodeFile ''x/a.js''"
    by (simp add: svc_isCodeFile_def ignoredPaths_def codeExtensions_def js_endsWith_def)
  have p1: "svc_generateTestPaths ''x/src/a.js'' =
     [''x/src/a.test.js'', ''x/src/a.spec.js'', ''x/src/__tests__/a.js'',
      ''x/src/__tests__/a.test.js'', ''x/src/tests/a.js'', ''x/src/test/a.js'',
      ''x/test/a.js'', ''x/tests/a.js'']"
    by (simp add: svc_generateTestPaths_def Let_def)
  have p2: "svc_generateTestPaths ''x/a.js'' =
     [''x/a.test.js'', ''x/a.spec.js'', ''x/__tests__/a.js'', ''x/__tests__/a.test.js'',
      ''x/tests/a.js'', ''x/test/a.js'']"
    by (simp add: svc_generateTestPaths_def Let_def)
  show ?thesis
    by (simp add: svc_identifyTests_def changedFile_def file_name_def js_or_def
        s1 s2 t c1 c2 p1 p2 svc_analyzeRisk_def fileRisk_def svc_findRelatedTests_def
        relatedTestsFor_def sourceEntry_def relatedEntry_def suggestedEntry_def
        existingEntry_def Let_def)
qed

subsection \<open>The relevance threshold\<close>

text \<open>
  The candidates of either \<^verbatim>\<open>identifyRelevantTests\<close>, before duplicates are removed,
  are the pairs of a change and a test that pass its threshold, in the order of the two
  nested loops: the weighted score for the overridden first definition, the confidence
  of the chain of conditions for the definition in force.
\<close>

lemma relevantPair_first_row:
  "map (\<lambda>e. (rf_relatedFile e, rf_fileName e, rf_confidence e))
       (concat (map (relevantPair_first change) tests)) =
   map (\<lambda>(c, t). (cc_fileName c, rt_fileName t, calculateTestRelevance c t))
       (filter (\<lambda>(c, t). calculateTestRelevance c t > 30) (map (Pair change) tests))"
  by (induction tests) (simp_all add: relevantPair_first_def Let_def)

lemma relevantTests_first_pairs:
  "map (\<lambda>e. (rf_relatedFile e, rf_fileName e, rf_confidence e))
       (relevantTests_first codeChanges tests) =
   map (\<lambda>(c, t). (cc_fileName c, rt_fileName t, calculateTestRelevance c t))
       (filter (\<lambda>(c, t). calculateTestRelevance c t > 30) (List.product codeChanges tests))"
  unfolding relevantTests_first_def
  by (induction codeChanges) (simp_all add: relevantPair_first_row)

lemma pairConfidence_tiers:
  "fst (pairConfidence change test) \<in> {0, 60, 70, 90}"
  by (simp add: pairConfidence_def Let_def)

lemma pairConfidence_threshold:
  "fst (pairConfidence change test) > 50 \<longleftrightarrow> fst (pairConfidence change test) > 30"
  using pairConfidence_tiers[of change test] by auto

lemma relevantPair_row:
  "map (\<lambda>e. (rt_relatedFile e, rt_fileName e, rt_confidence e))
       (concat (map (relevantPair change) tests)) =
   map (\<lambda>(c, t). (changedFileOf c, rt_fileName t, fst (pairConfidence c t)))
       (filter (\<lambda>(c, t). fst (pairConfidence c t) > 30) (map (Pair change) tests))"
proof (induction tests)
  case Nil
  show ?case by simp
next
  case (Cons t ts)
  show ?case
    using Cons.IH pairConfidence_threshold[of change t]
    by (cases "pairConfidence change t") (simp add: relevantPair_def)
qed

lemma relevantTests_pairs:
  "map (\<lambda>e. (rt_relatedFile e, rt_fileName e, rt_confidence e))
       (relevantTests codeChanges tests) =
   map (\<lambda>(c, t). (changedFileOf c, rt_fileName t, fst (pairConfidence c t)))
       (filter (\<lambda>(c, t). fst (pairConfidence c t) > 30) (List.product codeChanges tests))"
  unfolding relevantTests_def
  by (induction codeChanges) (simp_all add: relevantPair_row)

text \<open>
  The test files of the final result are those of the pairs that pass the threshold:
  removing duplicates and sorting lose no file name.
\<close>

lemma relevantTests_fileNames:
  "map rt_fileName (relevantTests codeChanges tests) =
   map (\<lambda>(c, t). rt_fileName t)
       (filter (\<lambda>(c, t). fst (pairConfidence c t) > 30) (List.product codeChanges tests))"
proof -
  have "map rt_fileName (relevantTests codeChanges tests) =
        map (\<lambda>x. fst (snd x)) (map (\<lambda>e. (rt_relatedFile e, rt_fileName e, rt_confidence e))
                                 (relevantTests codeChanges tests))"
    by simp
  also have "\<dots> = map (\<lambda>x. fst (snd x))
       (map (\<lambda>(c, t). (changedFileOf c, rt_fileName t, fst (pairConfidence c t)))
         (filter (\<lambda>(c, t). fst (pairConfidence c t) > 30) (List.product codeChanges tests)))"
    by (simp only: relevantTests_pairs)
  also have "\<dots> = map (\<lambda>(c, t). rt_fileName t)
       (filter (\<lambda>(c, t). fst (pairConfidence c t) > 30) (List.product codeChanges tests))"
    by (simp add: case_prod_beta)
  finally show ?thesis .
qed

lemma relevantTests_first_fileNames:
  "map rf_fileName (relevantTests_first codeChanges tests) =
   map (\<lambda>(c, t). rt_fileName t)
       (filter (\<lambda>(c, t). calculateTestRelevance c t > 30) (List.product codeChanges tests))"
proof -
  have "map rf_fileName (relevantTests_first codeChanges tests) =
        map (\<lambda>x. fst (snd x)) (map (\<lambda>e. (rf_relatedFile e, rf_fileName e, rf_confidence e))
                                 (relevantTests_first codeChanges tests))"
    by simp
  also have "\<dots> = map (\<lambda>x. fst (snd x))
       (map (\<lambda>(c, t). (cc_fileName c, rt_fileName t, calculateTestRelevance c t))
         (filter (\<lambda>(c, t). calculateTestRelevance c t > 30) (List.product codeChanges tests)))"
    by (simp only: relevantTests_first_pairs)
  also have "\<dots> = map (\<lambda>(c, t). rt_fileName t)
       (filter (\<lambda>(c, t). calculateTestRelevance c t > 30) (List.product codeChanges tests))"
    by (simp add: case_prod_beta)
  finally show ?thesis .
qed

lemma identifyRelevantTests_fileNames:
  "set (map rt_fileName (identifyRelevantTests codeChanges tests)) =
   {rt_fileName t | c t. c \<in> set codeChanges \<and> t \<in> set tests \<and> fst (pairConfidence c t) > 30}"
proof -
  have "set (map rt_fileName (identifyRelevantTests codeChanges tests)) =
        set (map rt_fileName (relevantTests codeChanges tests))"
    using keepFirst_keys[of rt_fileName "{}" "relevantTests codeChanges tests"]
    by (simp add: identifyRelevantTests_def uniqueTests_keepFirst)
  also have "\<dots> = {rt_fileName t | c t. c \<in> set codeChanges \<and> t \<in> set tests \<and>
                                   fst (pairConfidence c t) > 30}"
    unfolding relevantTests_fileNames by (auto simp: image_iff) 
  finally show ?thesis .
qed

lemma removeDuplicateTests_fileNames:
  "set (map rf_fileName (removeDuplicateTests (relevantTests_first codeChanges tests))) =
   {rt_fileName t | c t. c \<in> set codeChanges \<and> t \<in> set tests \<and>
                         calculateTestRelevance c t > 30}"
proof -
  have "set (map rf_fileName (removeDuplicateTests (relevantTests_first codeChanges tests))) =
        set (map rf_fileName (relevantTests_first codeChanges tests))"
    using keepFirst_keys[of rf_fileName "{}" "relevantTests_first codeChanges tests"]
    by (simp add: removeDuplicateTests_keepFirst)
  also have "\<dots> = {rt_fileName t | c t. c \<in> set codeChanges \<and> t \<in> set tests \<and>
                                   calculateTestRelevance c t > 30}"
    unfolding relevantTests_first_fileNames by (auto simp: image_iff)
  finally show ?thesis .
qed

text \<open>
  The overridden first definition keeps a pair exactly when its weighted score is above
  30. It is not the definition in force.
\<close>

lemma relevantPair_first_threshold:
  "relevantPair_first change test = [] \<longleftrightarrow> calculateTestRelevance change test \<le> 30"
  by (auto simp: relevantPair_first_def Let_def)

text \<open>
  Claim C4, as amended. In the \<^verbatim>\<open>identifyRelevantTests\<close> in force, the score of a pair
  of a changed file and a test is its confidence: 90 when the test path contains the path
  of the changed file without its extension, else 70 when it contains its directory, else
  60 when the base names are related, else 0. A pair is discarded exactly when this
  confidence is at most 50 (the test in the code), which is exactly when it is at most
  30; every other pair is kept as a candidate. The candidates, as generated, are the pairs
  above the threshold in loop order with that confidence, and a test file is in the
  result exactly when one of its pairs is above the threshold.
\<close>

theorem C4_pairs_kept_above_confidence_threshold:
  "fst (pairConfidence change test) \<in> {0, 60, 70, 90} \<and>
   (relevantPair change test = [] \<longleftrightarrow> fst (pairConfidence change test) \<le> 50) \<and>
   (relevantPair change test = [] \<longleftrightarrow> fst (pairConfidence change test) \<le> 30) \<and>
   map (\<lambda>e. (rt_relatedFile e, rt_fileName e, rt_confidence e))
       (relevantTests codeChanges tests) =
   map (\<lambda>(c, t). (changedFileOf c, rt_fileName t, fst (pairConfidence c t)))
       (filter (\<lambda>(c, t). \<not> fst (pairConfidence c t) \<le> 30) (List.product codeChanges tests)) \<and>
   set (map rt_fileName (identifyRelevantTests codeChanges tests)) =
     {rt_fileName t | c t. c \<in> set codeChanges \<and> t \<in> set tests \<and>
                           \<not> fst (pairConfidence c t) \<le> 30}"
proof -
  have t: "fst (pairConfidence change test) \<in> {0, 60, 70, 90}"
    by (rule pairConfidence_tiers)
  have c50: "relevantPair change test = [] \<longleftrightarrow> fst (pairConfidence change test) \<le> 50"
    by (cases "pairConfidence change test") (auto simp: relevantPair_def)
  have c30: "relevantPair change test = [] \<longleftrightarrow> fst (pairConfidence change test) \<le> 30"
    using c50 pairConfidence_threshold[of change test] by auto
  have d: "map (\<lambda>e. (rt_relatedFile e, rt_fileName e, rt_confidence e))
       (relevantTests codeChanges tests) =
   map (\<lambda>(c, t). (changedFileOf c, rt_fileName t, fst (pairConfidence c t)))
       (filter (\<lambda>(c, t). \<not> fst (pairConfidence c t) \<le> 30) (List.product codeChanges tests))"
    using relevantTests_pairs[of codeChanges tests] by (simp add: not_le)
  have f: "set (map rt_fileName (identifyRelevantTests codeChanges tests)) =
     {rt_fileName t | c t. c \<in> set codeChanges \<and> t \<in> set tests \<and>
                           \<not> fst (pairConfidence c t) \<le> 30}"
    using identifyRelevantTests_fileNames[of codeChanges tests] by (simp add: not_le)
  from t c50 c30 d f show ?thesis by blast
qed

text \<open>
  The test named after the changed file has confidence 90 and is kept; a test in another
  directory with an unrelated name has confidence 0 and is discarded.
\<close>

theorem C4_confidence_threshold_witness:
  "fst (pairConfidence userChange (repoTest ''src/user.test.js'' ''javascript'')) = 90 \<and>
   relevantPair userChange (repoTest ''src/user.test.js'' ''javascript'') \<noteq> [] \<and>
   fst (pairConfidence userChange (repoTest ''lib/db/conn_test.py'' ''python'')) = 0 \<and>
   relevantPair userChange (repoTest ''lib/db/conn_test.py'' ''python'') = []"
proof -
  have high: "fst (pairConfidence userChange (repoTest ''src/user.test.js'' ''javascript'')) = 90"
    by code_simp
  have low: "fst (pairConfidence userChange (repoTest ''lib/db/conn_test.py'' ''python'')) = 0"
    by code_simp
  have "relevantPair userChange (repoTest ''src/user.test.js'' ''javascript'') \<noteq> []"
    using C4_pairs_kept_above_confidence_threshold
            [of userChange "repoTest ''src/user.test.js'' ''javascript''" "[]" "[]"] high
    by simp
  moreover have "relevantPair userChange (repoTest ''lib/db/conn_test.py'' ''python'') = []"
    using C4_pairs_kept_above_confidence_threshold
            [of userChange "repoTest ''lib/db/conn_test.py'' ''python''" "[]" "[]"] low
    by simp
  ultimately show ?thesis using low high by simp
qed

text \<open>
  Claim C4 as stated is about the weighted relevance score, which only the overridden
  first definition computes. The definition in force keeps the pair of \<^verbatim>\<open>src/user.js\<close>
  and \<^verbatim>\<open>src/x/conn_test.py\<close>, whose weighted score is exactly 30, with confidence 70;
  and it discards the pair of \<^verbatim>\<open>src/user.js\<close>, with the modified functions
  \<^verbatim>\<open>login\<close> and \<^verbatim>\<open>auth\<close>, and \<^verbatim>\<open>tests/login_auth_test.py\<close>, whose weighted
  score is 40.
\<close>

theorem C4_weighted_score_counterexample:
  "calculateTestRelevance userChange (repoTest ''src/x/conn_test.py'' ''python'') = 30 \<and>
   map (\<lambda>t. (rt_fileName t, rt_confidence t))
     (identifyRelevantTests [userChange] [repoTest ''src/x/conn_test.py'' ''python'']) =
     [(''src/x/conn_test.py'', 70)] \<and>
   calculateTestRelevance authChange (repoTest ''tests/login_auth_test.py'' ''python'') = 40 \<and>
   relevantPair authChange (repoTest ''tests/login_auth_test.py'' ''python'') = [] \<and>
   identifyRelevantTests [authChange] [repoTest ''tests/login_auth_test.py'' ''python''] = []"
  by code_simp

end
